theory Spec2Isabelle
  imports Main
begin

section \<open>Python values: exceptions and strings\<close>

text \<open>
  An exception raised by the Python code is a value of \<open>py_exc\<close>; a function that can
  raise returns \<open>py_exc + 'a\<close>, with \<open>Inl\<close> the exception.  \<open>ValueError\<close> is what the
  specification calls InvalidInput.
\<close>

datatype py_exc =
    ValueError string
  | RuntimeError string
  | KeyError string
  | IndexError
  | AttributeError
  | TypeError
  | OverflowError

fun is_ValueError :: "py_exc \<Rightarrow> bool" where
  "is_ValueError (ValueError m) = True"
| "is_ValueError e = False"

definition bindE :: "'e + 'a \<Rightarrow> ('a \<Rightarrow> 'e + 'b) \<Rightarrow> 'e + 'b" where
  "bindE m f = (case m of Inl e \<Rightarrow> Inl e | Inr x \<Rightarrow> f x)"

text \<open>
  Strings are lists of 8-bit characters standing for ASCII text: letters outside
  \<open>A-Z\<close>/\<open>a-z\<close> have no case, and white space is what \<open>str.isspace\<close> accepts below
  code point 128.
\<close>

definition is_upper :: "char \<Rightarrow> bool" where
  "is_upper c = (65 \<le> (of_char c :: nat) \<and> (of_char c :: nat) \<le> 90)"

definition is_lower :: "char \<Rightarrow> bool" where
  "is_lower c = (97 \<le> (of_char c :: nat) \<and> (of_char c :: nat) \<le> 122)"

definition lower_char :: "char \<Rightarrow> char" where
  "lower_char c = (if is_upper c then char_of ((of_char c :: nat) + 32) else c)"

definition upper_char :: "char \<Rightarrow> char" where
  "upper_char c = (if is_lower c then char_of ((of_char c :: nat) - 32) else c)"

definition lower :: "string \<Rightarrow> string" where
  "lower s = map lower_char s"

definition isspace :: "char \<Rightarrow> bool" where
  "isspace c = ((9 \<le> (of_char c :: nat) \<and> (of_char c :: nat) \<le> 13)
     \<or> (28 \<le> (of_char c :: nat) \<and> (of_char c :: nat) \<le> 32))"

definition isdigit :: "char \<Rightarrow> bool" where
  "isdigit c = (48 \<le> (of_char c :: nat) \<and> (of_char c :: nat) \<le> 57)"

text \<open>\<open>s.lstrip(chars)\<close>: every leading character that occurs in \<open>chars\<close> is removed.\<close>

definition lstrip :: "string \<Rightarrow> string \<Rightarrow> string" where
  "lstrip chars s = dropWhile (\<lambda>c. c \<in> set chars) s"


text \<open>\<open>s.startswith(p)\<close>.\<close>

definition startswith :: "string \<Rightarrow> string \<Rightarrow> bool" where
  "startswith s p = (take (length p) s = p)"

text \<open>\<open>s.split()\<close> without arguments: the maximal runs of non-space characters.\<close>

fun split_ws :: "string \<Rightarrow> string \<Rightarrow> string list" where
  "split_ws cur [] = (if cur = [] then [] else [cur])"
| "split_ws cur (c # cs) =
     (if isspace c then (if cur = [] then split_ws [] cs else cur # split_ws [] cs)
      else split_ws (cur @ [c]) cs)"

definition py_split :: "string \<Rightarrow> string list" where
  "py_split s = split_ws [] s"

text \<open>
  \<open>s.title()\<close>: a cased character is upper-cased when the character before it is not
  cased, and lower-cased otherwise.
\<close>

fun title_from :: "bool \<Rightarrow> string \<Rightarrow> string" where
  "title_from prev [] = []"
| "title_from prev (c # cs) =
     (if is_upper c \<or> is_lower c
      then (if prev then lower_char c else upper_char c) # title_from True cs
      else c # title_from False cs)"

definition title :: "string \<Rightarrow> string" where
  "title s = title_from False s"

text \<open>\<open>s.replace(old, new)\<close> for a one-character \<open>old\<close>: every occurrence is replaced.\<close>

definition replace :: "string \<Rightarrow> char \<Rightarrow> string \<Rightarrow> string" where
  "replace s old new = concat (map (\<lambda>c. if c = old then new else [c]) s)"

text \<open>\<open>str(n)\<close> for an integer, and decimal rendering padded with zeros to a width.\<close>

fun str_nat :: "nat \<Rightarrow> string" where
  "str_nat n =
     (if n < 10 then [char_of (48 + n)] else str_nat (n div 10) @ [char_of (48 + n mod 10)])"

declare str_nat.simps [simp del]

definition str_int :: "int \<Rightarrow> string" where
  "str_int i = (if i < 0 then CHR ''-'' # str_nat (nat (- i)) else str_nat (nat i))"

definition zero_pad :: "nat \<Rightarrow> string \<Rightarrow> string" where
  "zero_pad width s = replicate (width - length s) CHR ''0'' @ s"

text \<open>
  \<open>int(s)\<close> on a string: white space around the literal is ignored, a sign may come
  first, and single underscores may separate digits.  \<open>None\<close> is Python's ValueError.
  A literal of more than 4300 digits is refused, as by the interpreter's default limit.
  The white space that \<open>int\<close> skips in an ASCII string is that of C's \<open>isspace\<close>, tab
  to carriage return and the space; the separators 28 to 31, which \<open>str.split\<close> takes
  for white space, are not skipped.
\<close>

definition is_c_space :: "char \<Rightarrow> bool" where
  "is_c_space c = ((9 \<le> (of_char c :: nat) \<and> (of_char c :: nat) \<le> 13) \<or> (of_char c :: nat) = 32)"

definition strip_c_space :: "string \<Rightarrow> string" where
  "strip_c_space s = rev (dropWhile is_c_space (rev (dropWhile is_c_space s)))"

fun int_digits :: "string \<Rightarrow> int \<Rightarrow> int option" where
  "int_digits [] acc = Some acc"
| "int_digits (c # cs) acc =
     (if isdigit c then int_digits cs (10 * acc + (int (of_char c) - 48))
      else if c = CHR ''_'' \<and> cs \<noteq> [] \<and> isdigit (hd cs) then int_digits cs acc
      else None)"

definition int_literal :: "string \<Rightarrow> int option" where
  "int_literal body =
     (if body = [] \<or> \<not> isdigit (hd body) \<or> 4300 < length (filter isdigit body) then None
      else int_digits body 0)"

definition py_int :: "string \<Rightarrow> int option" where
  "py_int s =
     (let t = strip_c_space s in
      if t \<noteq> [] \<and> hd t = CHR ''-'' then map_option uminus (int_literal (tl t))
      else if t \<noteq> [] \<and> hd t = CHR ''+'' then int_literal (tl t)
      else int_literal t)"

section \<open>Configuration and the limit validator\<close>

text \<open>The class attributes of \<open>Config\<close> in \<open>config.py\<close>.\<close>

definition DEFAULT_TWEET_LIMIT :: int where
  "DEFAULT_TWEET_LIMIT = 30"

definition MAX_TWEET_LIMIT :: int where
  "MAX_TWEET_LIMIT = 100"

definition MIN_TWEET_LIMIT :: int where
  "MIN_TWEET_LIMIT = 1"

text \<open>
  \<open>validate_limit(limit_str, default=None)\<close> of \<open>app/utils/validators.py\<close>.  The raw
  value is the query parameter, a string or \<open>None\<close>.
\<close>

definition validate_limit :: "string option \<Rightarrow> int option \<Rightarrow> py_exc + int" where
  "validate_limit limit_str dflt =
     (let dflt' = (case dflt of None \<Rightarrow> DEFAULT_TWEET_LIMIT | Some d \<Rightarrow> d) in
      case limit_str of
        None \<Rightarrow> Inr dflt'
      | Some s \<Rightarrow>
          (case py_int s of
             None \<Rightarrow> Inl (ValueError (''Invalid limit value: '' @ s @ ''. Must be an integer.''))
           | Some limit \<Rightarrow>
               if limit < MIN_TWEET_LIMIT
               then Inl (ValueError (''Limit must be at least '' @ str_int MIN_TWEET_LIMIT))
               else if limit > MAX_TWEET_LIMIT
               then Inl (ValueError (''Limit cannot exceed '' @ str_int MAX_TWEET_LIMIT))
               else Inr limit))"

section \<open>The platform: pseudo-random numbers and the wall clock\<close>

text \<open>
  The module-level generator of \<open>random\<close> and the wall clock are the only state the
  Synthetic Backend touches.  Both are feeds: element \<open>k\<close> of \<open>entropy\<close> is the
  \<open>k\<close>-th number the generator will produce, element \<open>k\<close> of \<open>clock\<close> the \<open>k\<close>-th
  reading of \<open>datetime.now()\<close>.  A statement about every \<open>world\<close> covers the feed that
  \<open>random.seed(42)\<close> fixes in \<open>TwitterMockService.__init__\<close>.
\<close>

record world =
  entropy :: "nat \<Rightarrow> nat"
  clock :: "nat \<Rightarrow> int"

text \<open>\<open>random._randbelow(n)\<close>: some number below \<open>n\<close>, and the generator advances.\<close>

definition randbelow :: "nat \<Rightarrow> world \<Rightarrow> nat \<times> world" where
  "randbelow n w = (entropy w 0 mod n, w\<lparr>entropy := \<lambda>k. entropy w (Suc k)\<rparr>)"

text \<open>\<open>random.choice(seq)\<close> is \<open>seq[_randbelow(len(seq))]\<close>, IndexError on an empty one.\<close>

definition random_choice :: "'a list \<Rightarrow> world \<Rightarrow> py_exc + ('a \<times> world)" where
  "random_choice seq w =
     (if seq = [] then Inl IndexError
      else (let (k, w') = randbelow (length seq) w in Inr (seq ! k, w')))"

text \<open>\<open>random.randint(a, b)\<close> is \<open>a + _randbelow(b - a + 1)\<close>, ValueError when \<open>b < a\<close>.\<close>

definition randint :: "int \<Rightarrow> int \<Rightarrow> world \<Rightarrow> py_exc + (int \<times> world)" where
  "randint a b w =
     (if b < a then Inl (ValueError ''empty range for randrange()'')
      else (let (k, w') = randbelow (nat (b - a + 1)) w in Inr (a + int k, w')))"

text \<open>
  A \<open>datetime\<close> is the number of microseconds since 0001-01-01T00:00:00 in the
  proleptic Gregorian calendar; the values of the class are those from 0 up to
  \<open>DATETIME_MAX\<close>, the first instant of year 10000.
\<close>

type_synonym datetime = int

definition US_PER_DAY :: int where
  "US_PER_DAY = 86400000000"

definition DATETIME_MAX :: int where
  "DATETIME_MAX = 3652059 * 86400000000"

definition UNIX_EPOCH :: int where
  "UNIX_EPOCH = 719162 * 86400000000"

definition datetime_now :: "world \<Rightarrow> datetime \<times> world" where
  "datetime_now w = (clock w 0, w\<lparr>clock := \<lambda>k. clock w (Suc k)\<rparr>)"

text \<open>
  \<open>dt - timedelta(microseconds=us)\<close>: OverflowError when the result is not a value
  of the class.
\<close>

definition datetime_sub :: "datetime \<Rightarrow> int \<Rightarrow> py_exc + datetime" where
  "datetime_sub dt us =
     (if dt - us < 0 \<or> DATETIME_MAX \<le> dt - us then Inl OverflowError else Inr (dt - us))"

text \<open>The calendar fields of a \<open>datetime\<close>: year, month and day from the day number.\<close>

definition DAYS_IN_MONTH :: "nat list" where
  "DAYS_IN_MONTH = [0, 31, 28, 31, 30, 31, 30, 31, 31, 30, 31, 30, 31]"

definition DAYS_BEFORE_MONTH :: "nat list" where
  "DAYS_BEFORE_MONTH = [0, 0, 31, 59, 90, 120, 151, 181, 212, 243, 273, 304, 334]"

definition ord2ymd :: "nat \<Rightarrow> nat \<times> nat \<times> nat" where
  "ord2ymd n0 =
     (let n400 = n0 div 146097; na = n0 mod 146097;
          n100 = na div 36524; nb = na mod 36524;
          n4 = nb div 1461; nc = nb mod 1461;
          n1 = nc div 365; n = nc mod 365;
          year = n400 * 400 + 1 + n100 * 100 + n4 * 4 + n1
      in if n1 = 4 \<or> n100 = 4 then (year - 1, 12, 31)
         else (let leapyear = (n1 = 3 \<and> (n4 \<noteq> 24 \<or> n100 = 3));
                   month = (n + 50) div 32;
                   preceding = DAYS_BEFORE_MONTH ! month + (if 2 < month \<and> leapyear then 1 else 0)
               in if n < preceding
                  then (let month' = month - 1;
                            preceding' = preceding
                              - (DAYS_IN_MONTH ! month' + (if month' = 2 \<and> leapyear then 1 else 0))
                        in (year, month', n - preceding' + 1))
                  else (year, month, n - preceding + 1)))"

definition dt_year :: "datetime \<Rightarrow> nat" where
  "dt_year dt = fst (ord2ymd (nat (dt div US_PER_DAY)))"

definition dt_month :: "datetime \<Rightarrow> nat" where
  "dt_month dt = fst (snd (ord2ymd (nat (dt div US_PER_DAY))))"

definition dt_day :: "datetime \<Rightarrow> nat" where
  "dt_day dt = snd (snd (ord2ymd (nat (dt div US_PER_DAY))))"

definition dt_hour :: "datetime \<Rightarrow> nat" where
  "dt_hour dt = nat ((dt mod US_PER_DAY) div 3600000000)"

definition dt_minute :: "datetime \<Rightarrow> nat" where
  "dt_minute dt = nat (((dt mod US_PER_DAY) div 60000000) mod 60)"

text \<open>
  \<open>dt.strftime(fmt)\<close> for the directives the repository uses, in the C locale of
  glibc: \<open>%I\<close>, \<open>%M\<close> and \<open>%d\<close> in two digits, \<open>%p\<close>, \<open>%b\<close>, the year \<open>%Y\<close> in decimal
  without padding (so a year below 1000 has fewer than four digits), and the flag
  \<open>-\<close> that drops the padding.  Any other character is copied.
\<close>

definition MONTH_ABBR :: "string list" where
  "MONTH_ABBR = [[], ''Jan'', ''Feb'', ''Mar'', ''Apr'', ''May'', ''Jun'',
                 ''Jul'', ''Aug'', ''Sep'', ''Oct'', ''Nov'', ''Dec'']"

definition hour12 :: "datetime \<Rightarrow> nat" where
  "hour12 dt = (if dt_hour dt mod 12 = 0 then 12 else dt_hour dt mod 12)"

definition directive :: "datetime \<Rightarrow> bool \<Rightarrow> char \<Rightarrow> string" where
  "directive dt nopad d =
     (if d = CHR ''I'' then zero_pad (if nopad then 0 else 2) (str_nat (hour12 dt))
      else if d = CHR ''M'' then zero_pad (if nopad then 0 else 2) (str_nat (dt_minute dt))
      else if d = CHR ''p'' then (if dt_hour dt < 12 then ''AM'' else ''PM'')
      else if d = CHR ''d'' then zero_pad (if nopad then 0 else 2) (str_nat (dt_day dt))
      else if d = CHR ''b'' then MONTH_ABBR ! dt_month dt
      else if d = CHR ''Y'' then str_nat (dt_year dt)
      else (if nopad then [CHR ''%'', CHR ''-'', d] else [CHR ''%'', d]))"

fun strftime :: "datetime \<Rightarrow> string \<Rightarrow> string" where
  "strftime dt [] = []"
| "strftime dt [c] = [c]"
| "strftime dt (c # d # fmt) =
     (if c = CHR ''%'' then
        (if d = CHR ''-'' then
           (case fmt of [] \<Rightarrow> [c, d] | e # fmt' \<Rightarrow> directive dt True e @ strftime dt fmt')
         else directive dt False d @ strftime dt fmt)
      else c # strftime dt (d # fmt))"

section \<open>The record model\<close>

text \<open>
  The dataclasses \<open>Account\<close> and \<open>Tweet\<close> of \<open>app/models/tweet.py\<close>.  The field \<open>id\<close>
  of an account is \<open>account_id\<close> here and the field \<open>text\<close> of a tweet is \<open>tweet_text\<close>,
  since \<open>id\<close> and \<open>text\<close> have a meaning of their own in Isabelle.
\<close>

record Account =
  fullname :: string
  href :: string
  account_id :: int

record Tweet =
  account :: Account
  date :: string
  tweet_text :: string
  replies :: int
  retweets :: int
  likes :: int
  hashtags :: "string list"

section \<open>The Synthetic Backend\<close>

text \<open>
  \<open>TwitterMockService\<close> of \<open>app/services/twitter_mock_service.py\<close>.  The sample
  accounts are dictionaries that the code passes to \<open>Account(**account_data)\<close>; they
  are written as the records this produces.
\<close>

definition SAMPLE_ACCOUNTS :: "Account list" where
  "SAMPLE_ACCOUNTS =
     [\<lparr>fullname = ''Raymond Hettinger'', href = ''/raymondh'', account_id = 14159138\<rparr>,
      \<lparr>fullname = ''Guido van Rossum'', href = ''/gvanrossum'', account_id = 10945672\<rparr>,
      \<lparr>fullname = ''Python Software'', href = ''/ThePSF'', account_id = 63873759\<rparr>,
      \<lparr>fullname = ''Real Python'', href = ''/realpython'', account_id = 752486881\<rparr>,
      \<lparr>fullname = ''Python Weekly'', href = ''/PythonWeekly'', account_id = 315766685\<rparr>,
      \<lparr>fullname = ''Twitter'', href = ''/Twitter'', account_id = 783214\<rparr>,
      \<lparr>fullname = ''Tech News'', href = ''/technews'', account_id = 123456789\<rparr>,
      \<lparr>fullname = ''Code Academy'', href = ''/codeacademy'', account_id = 987654321\<rparr>]"

definition SAMPLE_TEXTS :: "string list" where
  \<open>SAMPLE_TEXTS =
     [''Just released a new #Python library for data processing! Check it out: github.com/example'',
      ''Historically, bash filename pattern matching was known as "globbing". Hence, the #python module called "glob".'',
      ''Excited to announce our new feature! #technology #innovation'',
      ''Working on some amazing #Python projects today. The productivity is real!'',
      ''Powerful voices. Inspiring women. #InternationalWomensDay'',
      ''New blog post about #programming best practices. Link in bio!'',
      ''Just deployed our latest microservice using #Python 3.12. Performance improvements are incredible!'',
      ''Anyone else loving the new features in Python 3.13? #python #coding'',
      ''Great conference talk today about #softwaredevelopment and #agile methodologies'',
      ''Remember: premature optimization is the root of all evil. #programming #python'']\<close>

text \<open>
  \<open>_generate_date(index)\<close>.  \<open>timedelta(days=index * 0.5)\<close> is \<open>index\<close> times twelve
  hours, which the floating-point product represents exactly for every index a
  loop can reach.
\<close>

definition generate_date :: "int \<Rightarrow> world \<Rightarrow> py_exc + (string \<times> world)" where
  "generate_date index w =
     (let (now, w') = datetime_now w in
      bindE (datetime_sub now (index * 43200000000))
        (\<lambda>tweet_time. Inr (strftime tweet_time ''%-I:%M %p - %-d %b %Y'', w')))"

text \<open>\<open>range(limit)\<close>.\<close>

definition py_range :: "int \<Rightarrow> int list" where
  "py_range limit = map int [0 ..< nat limit]"

text \<open>The body of the loop of \<open>get_tweets_by_hashtag\<close>, for index \<open>i\<close>.\<close>

definition hashtag_tweet :: "string \<Rightarrow> int \<Rightarrow> world \<Rightarrow> py_exc + (Tweet \<times> world)" where
  "hashtag_tweet hashtag i w =
     bindE (random_choice SAMPLE_ACCOUNTS w) (\<lambda>(account_data, w1).
     bindE (random_choice SAMPLE_TEXTS w1) (\<lambda>(base_text, w2).
       let existing_hashtags =
             map (\<lambda>word. lower (drop 1 word)) (filter (\<lambda>word. startswith word ''#'') (py_split base_text));
           missing = (hashtag \<notin> set existing_hashtags);
           existing_hashtags' = (if missing then hashtag # existing_hashtags else existing_hashtags);
           base_text' = (if missing then base_text @ [CHR 0x0A, CHR ''#''] @ hashtag else base_text)
       in
     bindE (generate_date i w2) (\<lambda>(d, w3).
     bindE (randint 0 500 w3) (\<lambda>(rp, w4).
     bindE (randint 0 1000 w4) (\<lambda>(rt, w5).
     bindE (randint 0 5000 w5) (\<lambda>(lk, w6).
       Inr (\<lparr>account = account_data, date = d, tweet_text = base_text', replies = rp,
             retweets = rt, likes = lk,
             hashtags = map (\<lambda>tag. CHR ''#'' # tag) existing_hashtags'\<rparr>, w6)))))))"

text \<open>
  The loop \<open>for i in range(limit): ...; tweets.append(tweet)\<close> of both methods: the
  body runs for each index in turn, and the first exception ends the call.
\<close>

fun append_loop ::
  "(int \<Rightarrow> world \<Rightarrow> py_exc + ('a \<times> world)) \<Rightarrow> int list \<Rightarrow> 'a list \<Rightarrow> world
     \<Rightarrow> py_exc + ('a list \<times> world)" where
  "append_loop body [] tweets w = Inr (tweets, w)"
| "append_loop body (i # is) tweets w =
     bindE (body i w) (\<lambda>(tweet, w'). append_loop body is (tweets @ [tweet]) w')"

definition mock_get_tweets_by_hashtag :: "string \<Rightarrow> int \<Rightarrow> world \<Rightarrow> py_exc + (Tweet list \<times> world)" where
  "mock_get_tweets_by_hashtag hashtag limit w =
     (if hashtag = [] then Inl (ValueError ''Hashtag cannot be empty'')
      else append_loop (hashtag_tweet (lower (lstrip ''#'' hashtag))) (py_range limit) [] w)"

text \<open>The body of the loop of \<open>get_user_tweets\<close>, for index \<open>i\<close>.\<close>

definition user_tweet :: "Account \<Rightarrow> int \<Rightarrow> world \<Rightarrow> py_exc + (Tweet \<times> world)" where
  "user_tweet acc i w =
     bindE (random_choice SAMPLE_TEXTS w) (\<lambda>(base_text, w1).
     bindE (generate_date i w1) (\<lambda>(d, w2).
     bindE (randint 0 500 w2) (\<lambda>(rp, w3).
     bindE (randint 0 1000 w3) (\<lambda>(rt, w4).
     bindE (randint 0 5000 w4) (\<lambda>(lk, w5).
       Inr (\<lparr>account = acc, date = d, tweet_text = base_text, replies = rp,
             retweets = rt, likes = lk,
             hashtags = filter (\<lambda>word. startswith word ''#'') (py_split base_text)\<rparr>, w5))))))"

text \<open>
  The account of \<open>get_user_tweets\<close>: the first sample account whose \<open>href\<close>, without its
  slashes and in lower case, is the lower-cased user name; a new one otherwise.
\<close>

definition resolve_account :: "string \<Rightarrow> world \<Rightarrow> py_exc + (Account \<times> world)" where
  "resolve_account username w =
     (case find (\<lambda>acc. lower (lstrip ''/'' (href acc)) = lower username) SAMPLE_ACCOUNTS of
        Some matching_account \<Rightarrow> Inr (matching_account, w)
      | None \<Rightarrow>
          bindE (randint 1000000 99999999 w) (\<lambda>(n, w').
            Inr (\<lparr>fullname = title username, href = CHR ''/'' # username, account_id = n\<rparr>, w')))"

definition mock_get_user_tweets :: "string \<Rightarrow> int \<Rightarrow> world \<Rightarrow> py_exc + (Tweet list \<times> world)" where
  "mock_get_user_tweets username limit w =
     (if username = [] then Inl (ValueError ''Username cannot be empty'')
      else bindE (resolve_account (lstrip ''@'' username) w)
             (\<lambda>(acc, w'). append_loop (user_tweet acc) (py_range limit) [] w'))"

text \<open>A world for running the code: every draw is 0, every reading 2023-03-15T14:30.\<close>

definition world0 :: world where
  "world0 = \<lparr>entropy = (\<lambda>k. 0), clock = (\<lambda>k. 63814487400000000)\<rparr>"

section \<open>The Upstream Backend\<close>

text \<open>
  \<open>TwitterAPIService\<close> of \<open>app/services/twitter_api_service.py\<close>.  The JSON bodies
  have the shape the upstream API documents: a user is an object of strings (\<open>id\<close>,
  \<open>name\<close>, \<open>username\<close>), a tweet an object of strings (\<open>id\<close>, \<open>author_id\<close>, \<open>text\<close>,
  \<open>created_at\<close>) with an optional object \<open>public_metrics\<close> of integers.  A key that
  may be absent is an \<open>option\<close> or a partial map.
\<close>

type_synonym user_obj = "string \<rightharpoonup> string"

record tweet_obj =
  j_fields :: "string \<rightharpoonup> string"
  j_public_metrics :: "(string \<rightharpoonup> int) option"

record includes_obj =
  j_users :: "user_obj list option"

record tweets_payload =
  j_data :: "tweet_obj list option"
  j_includes :: "includes_obj option"

record user_payload =
  j_user :: "user_obj option"

text \<open>\<open>d.get(key, default)\<close>.\<close>

definition dict_get :: "('k \<rightharpoonup> 'v) \<Rightarrow> 'k \<Rightarrow> 'v \<Rightarrow> 'v" where
  "dict_get d k dflt = (case d k of None \<Rightarrow> dflt | Some v \<Rightarrow> v)"

text \<open>
  \<open>requests.get(url, headers=..., params=..., timeout=10)\<close> either raises a
  \<open>RequestException\<close> or returns a response with a status code and a body, which
  \<open>response.json()\<close> decodes; a body that is not JSON is not modelled.  The two fields
  of \<open>transport\<close> are this one call, typed by the endpoint's body.
\<close>

datatype pval = PStr string | PInt int

datatype 'a http_result = RequestException string | Response int 'a

record transport =
  get_tweets :: "string \<Rightarrow> (string \<times> string) list \<Rightarrow> (string \<times> pval) list \<Rightarrow> tweets_payload http_result"
  get_user :: "string \<Rightarrow> (string \<times> string) list \<Rightarrow> (string \<times> pval) list \<Rightarrow> user_payload http_result"

record TwitterAPIService =
  bearer_token :: string
  headers :: "(string \<times> string) list"

definition BASE_URL :: string where
  "BASE_URL = ''https://api.twitter.com/2''"

text \<open>
  \<open>__init__(bearer_token=None)\<close>; the second argument is the value of the environment
  variable \<open>TWITTER_BEARER_TOKEN\<close>.
\<close>

definition api_init :: "string option \<Rightarrow> string option \<Rightarrow> py_exc + TwitterAPIService" where
  "api_init token env =
     (let chosen = (if token = None \<or> token = Some [] then env else token) in
      if chosen = None \<or> chosen = Some []
      then Inl (ValueError ''Twitter API Bearer Token is required. Set TWITTER_BEARER_TOKEN environment variable or pass bearer_token parameter. Get your token at https://developer.x.com'')
      else Inr \<lparr>bearer_token = the chosen,
                headers = [(''Authorization'', ''Bearer '' @ the chosen),
                           (''Content-Type'', ''application/json'')]\<rparr>)"

text \<open>
  \<open>_format_date(iso_date)\<close>.  \<open>datetime.fromisoformat\<close> belongs to the interpreter, and
  what it accepts depends on the interpreter's version; it is the parameter
  \<open>fromisoformat\<close>.
\<close>

definition format_date :: "(string \<Rightarrow> py_exc + datetime) \<Rightarrow> string \<Rightarrow> py_exc + string" where
  "format_date fromisoformat iso_date =
     (case fromisoformat (replace iso_date CHR ''Z'' ''+00:00'') of
        Inr dt \<Rightarrow> Inr (strftime dt ''%-I:%M %p - %-d %b %Y'')
      | Inl e \<Rightarrow> if is_ValueError e \<or> e = AttributeError then Inr iso_date else Inl e)"

text \<open>The user lookup dictionary of \<open>_parse_tweets_response\<close>.\<close>

fun build_users :: "user_obj list \<Rightarrow> (string \<rightharpoonup> user_obj) \<Rightarrow> py_exc + (string \<rightharpoonup> user_obj)" where
  "build_users [] users = Inr users"
| "build_users (user # rest) users =
     (case user ''id'' of
        None \<Rightarrow> Inl (KeyError ''id'')
      | Some uid \<Rightarrow> build_users rest (users(uid \<mapsto> user)))"

text \<open>The body of the loop of \<open>_parse_tweets_response\<close>.\<close>

definition parse_tweet ::
  "(string \<Rightarrow> py_exc + datetime) \<Rightarrow> (string \<rightharpoonup> user_obj) \<Rightarrow> tweet_obj \<Rightarrow> py_exc + Tweet" where
  "parse_tweet fromisoformat users tweet_data =
     (let author_id = j_fields tweet_data ''author_id'';
          author_info = (case author_id of None \<Rightarrow> Map.empty
                         | Some a \<Rightarrow> dict_get users a Map.empty)
      in
      bindE (case author_id of
               None \<Rightarrow> Inr 0
             | Some a \<Rightarrow> if a = [] then Inr 0
                         else (case py_int a of
                                 None \<Rightarrow> Inl (ValueError (''invalid literal for int() with base 10: '' @ a))
                               | Some n \<Rightarrow> Inr n))
        (\<lambda>aid.
           let acc = \<lparr>fullname = dict_get author_info ''name'' ''Unknown'',
                      href = CHR ''/'' # dict_get author_info ''username'' ''unknown'',
                      account_id = aid\<rparr>;
               metrics = (case j_public_metrics tweet_data of None \<Rightarrow> Map.empty | Some m \<Rightarrow> m);
               txt = dict_get (j_fields tweet_data) ''text'' [];
               tags = filter (\<lambda>word. startswith word ''#'') (py_split txt);
               created_at = dict_get (j_fields tweet_data) ''created_at'' []
           in
           bindE (format_date fromisoformat created_at)
             (\<lambda>formatted_date.
                Inr \<lparr>account = acc, date = formatted_date, tweet_text = txt,
                     replies = dict_get metrics ''reply_count'' 0,
                     retweets = dict_get metrics ''retweet_count'' 0,
                     likes = dict_get metrics ''like_count'' 0,
                     hashtags = tags\<rparr>)))"

fun parse_loop ::
  "(string \<Rightarrow> py_exc + datetime) \<Rightarrow> (string \<rightharpoonup> user_obj) \<Rightarrow> tweet_obj list \<Rightarrow> Tweet list
     \<Rightarrow> py_exc + Tweet list" where
  "parse_loop fromisoformat users [] tweets = Inr tweets"
| "parse_loop fromisoformat users (tweet_data # rest) tweets =
     bindE (parse_tweet fromisoformat users tweet_data)
       (\<lambda>tweet. parse_loop fromisoformat users rest (tweets @ [tweet]))"

definition parse_tweets_response ::
  "(string \<Rightarrow> py_exc + datetime) \<Rightarrow> tweets_payload \<Rightarrow> py_exc + Tweet list" where
  "parse_tweets_response fromisoformat payload =
     (case j_data payload of
        None \<Rightarrow> Inr []
      | Some items \<Rightarrow>
          bindE (case j_includes payload of
                   None \<Rightarrow> Inr Map.empty
                 | Some inc \<Rightarrow> (case j_users inc of
                                  None \<Rightarrow> Inr Map.empty
                                | Some us \<Rightarrow> build_users us Map.empty))
            (\<lambda>users. parse_loop fromisoformat users items []))"

text \<open>
  \<open>response.raise_for_status()\<close> raises an \<open>HTTPError\<close>, a \<open>RequestException\<close>, for a
  status from 400 to 599; both methods turn it into a RuntimeError.  The text of the
  library's message is abbreviated to the status code.
\<close>

definition raise_for_status :: "int \<Rightarrow> py_exc + unit" where
  "raise_for_status status =
     (if 400 \<le> status \<and> status < 600
      then Inl (RuntimeError (''API request failed: '' @ str_int status @ '' Error''))
      else Inr ())"

definition handle_api_errors :: "int \<Rightarrow> py_exc + unit" where
  "handle_api_errors status =
     (if status = 429
      then Inl (RuntimeError ''Rate limit exceeded. Please wait before making more requests.'')
      else if status = 401
      then Inl (RuntimeError ''Authentication failed. Please check your Bearer Token.'')
      else if status = 403
      then Inl (RuntimeError ''Access forbidden. This may require a higher API access tier.'')
      else Inr ())"

definition api_get_tweets_by_hashtag ::
  "TwitterAPIService \<Rightarrow> transport \<Rightarrow> (string \<Rightarrow> py_exc + datetime) \<Rightarrow> string \<Rightarrow> int
     \<Rightarrow> py_exc + Tweet list" where
  "api_get_tweets_by_hashtag self net fromisoformat hashtag limit =
     (if hashtag = [] then Inl (ValueError ''Hashtag cannot be empty'')
      else
        (let hashtag' = lstrip ''#'' hashtag;
             query = CHR ''#'' # hashtag';
             params = [(''query'', PStr query),
                       (''max_results'', PInt (min limit 100)),
                       (''tweet.fields'', PStr ''created_at,public_metrics,text''),
                       (''expansions'', PStr ''author_id''),
                       (''user.fields'', PStr ''id,name,username'')]
         in case get_tweets net (BASE_URL @ ''/tweets/search/recent'') (headers self) params of
              RequestException m \<Rightarrow> Inl (RuntimeError (''API request failed: '' @ m))
            | Response status body \<Rightarrow>
                if status = 429
                then Inl (RuntimeError ''Rate limit exceeded. Please wait before making more requests. Consider upgrading your X API access tier.'')
                else if status = 401
                then Inl (RuntimeError ''Authentication failed. Please check your Bearer Token. Get your token at https://developer.x.com'')
                else if status = 403
                then Inl (RuntimeError ''Access forbidden. This endpoint may require a higher API access tier. Free tier has limited access. Consider upgrading at https://developer.x.com'')
                else bindE (raise_for_status status)
                       (\<lambda>_. parse_tweets_response fromisoformat body)))"

definition api_get_user_tweets ::
  "TwitterAPIService \<Rightarrow> transport \<Rightarrow> (string \<Rightarrow> py_exc + datetime) \<Rightarrow> string \<Rightarrow> int
     \<Rightarrow> py_exc + Tweet list" where
  "api_get_user_tweets self net fromisoformat username limit =
     (if username = [] then Inl (ValueError ''Username cannot be empty'')
      else
        (let username' = lstrip ''@'' username
         in case get_user net (BASE_URL @ ''/users/by/username/'' @ username') (headers self)
                   [(''user.fields'', PStr ''id,name,username'')] of
              RequestException m \<Rightarrow> Inl (RuntimeError (''API request failed: '' @ m))
            | Response status user_data \<Rightarrow>
                bindE (handle_api_errors status) (\<lambda>_.
                bindE (raise_for_status status) (\<lambda>_.
                  case j_user user_data of
                    None \<Rightarrow> Inl (RuntimeError (''User '' @ [CHR 0x27] @ username' @ [CHR 0x27] @ '' not found''))
                  | Some user \<Rightarrow>
                      (case user ''id'' of
                         None \<Rightarrow> Inl (KeyError ''id'')
                       | Some user_id \<Rightarrow>
                           (let tweets_params =
                                  [(''max_results'', PInt (min limit 100)),
                                   (''tweet.fields'', PStr ''created_at,public_metrics,text''),
                                   (''user.fields'', PStr ''id,name,username'')]
                            in case get_tweets net (BASE_URL @ ''/users/'' @ user_id @ ''/tweets'')
                                      (headers self) tweets_params of
                                 RequestException m \<Rightarrow>
                                   Inl (RuntimeError (''API request failed: '' @ m))
                               | Response status2 tweets_data \<Rightarrow>
                                   bindE (handle_api_errors status2) (\<lambda>_.
                                   bindE (raise_for_status status2) (\<lambda>_.
                                     parse_tweets_response fromisoformat
                                       (if j_data tweets_data \<noteq> None
                                        then tweets_data\<lparr>j_includes := Some \<lparr>j_users = Some [user]\<rparr>\<rparr>
                                        else tweets_data)))))))))"

section \<open>Notions used in the statements\<close>

text \<open>What the caller of a method of the Synthetic Backend sees: the exception or the list.\<close>

definition outcome :: "'e + ('a \<times> world) \<Rightarrow> 'e + 'a" where
  "outcome r = map_sum id fst r"

text \<open>A call fails with InvalidInput when it raises ValueError.\<close>

definition invalid_input :: "py_exc + 'a \<Rightarrow> bool" where
  "invalid_input r = (case r of Inl e \<Rightarrow> is_ValueError e | Inr x \<Rightarrow> False)"

text \<open>
  The wall clock is sane: every reading lies between 1970-01-01 and the end of year
  9999.
\<close>

definition clock_ok :: "world \<Rightarrow> bool" where
  "clock_ok w = (\<forall>k. UNIX_EPOCH \<le> clock w k \<and> clock w k < DATETIME_MAX)"

text \<open>
  How a tweet of \<open>get_tweets_by_hashtag\<close> relates to the sample text \<open>base\<close> it was made
  from: when the requested tag is among the lower-cased \<open>#\<close>-words of \<open>base\<close>, text and
  hashtags are those of \<open>base\<close>; otherwise the tag is put in front of the hashtags and
  a line \<open>#tag\<close> is added to the text.
\<close>

definition tag_forced :: "string \<Rightarrow> string \<Rightarrow> Tweet \<Rightarrow> bool" where
  "tag_forced hashtag base tw =
     (let existing = map (\<lambda>word. lower (drop 1 word))
                       (filter (\<lambda>word. startswith word ''#'') (py_split base))
      in if hashtag \<in> set existing
         then tweet_text tw = base \<and> hashtags tw = map (\<lambda>tag. CHR ''#'' # tag) existing
         else tweet_text tw = base @ [CHR 0x0A, CHR ''#''] @ hashtag
              \<and> hashtags tw = map (\<lambda>tag. CHR ''#'' # tag) (hashtag # existing))"

text \<open>
  The account that belongs to a normalized user name: the first sample account that
  matches it without regard to case, or else an account made from the name with an
  id of seven or eight digits.
\<close>

definition resolved :: "string \<Rightarrow> Account \<Rightarrow> bool" where
  "resolved username acc =
     (case find (\<lambda>a. lower (lstrip ''/'' (href a)) = lower username) SAMPLE_ACCOUNTS of
        Some matching_account \<Rightarrow> acc = matching_account
      | None \<Rightarrow> fullname acc = title username \<and> href acc = CHR ''/'' # username
                \<and> 1000000 \<le> account_id acc \<and> account_id acc \<le> 99999999)"

text \<open>
  The documented behaviour of \<open>datetime.fromisoformat\<close> on a string: it returns a
  \<open>datetime\<close> or raises ValueError.
\<close>

definition iso_contract :: "(string \<Rightarrow> py_exc + datetime) \<Rightarrow> bool" where
  "iso_contract f = (\<forall>s e. f s = Inl e \<longrightarrow> is_ValueError e)"

text \<open>The value under \<open>key\<close> in the \<open>public_metrics\<close> of an upstream item, if there is one.\<close>

definition metric_of :: "tweet_obj \<Rightarrow> string \<Rightarrow> int option" where
  "metric_of item key = (case j_public_metrics item of None \<Rightarrow> None | Some m \<Rightarrow> m key)"

text \<open>
  Objects for running the Upstream Backend.  \<open>fromisoformat0\<close> knows one timestamp;
  \<open>net_echo\<close> fails every request with the URL and the parameters it was given, so
  that the request shows in the RuntimeError; \<open>test_item\<close> and \<open>test_user\<close> are the
  payload of \<open>test_parse_response_structure\<close>, \<open>bare_item\<close> an item without members.
\<close>

definition fromisoformat0 :: "string \<Rightarrow> py_exc + datetime" where
  "fromisoformat0 s =
     (if s = ''2023-03-15T14:30:00.000+00:00'' then Inr 63814487400000000
      else Inl (ValueError ''Invalid isoformat string''))"

definition api0 :: TwitterAPIService where
  "api0 = \<lparr>bearer_token = ''test_token'',
           headers = [(''Authorization'', ''Bearer test_token''),
                      (''Content-Type'', ''application/json'')]\<rparr>"

definition show_param :: "string \<times> pval \<Rightarrow> string" where
  "show_param p = fst p @ ''='' @ (case snd p of PStr s \<Rightarrow> s | PInt i \<Rightarrow> str_int i) @ ''&''"

definition net_echo :: transport where
  "net_echo =
     \<lparr>get_tweets = (\<lambda>url hs ps. RequestException (url @ ''?'' @ concat (map show_param ps))),
      get_user = (\<lambda>url hs ps. RequestException (url @ ''?'' @ concat (map show_param ps)))\<rparr>"

definition test_item :: tweet_obj where
  "test_item =
     \<lparr>j_fields = [''id'' \<mapsto> ''123456789'', ''author_id'' \<mapsto> ''987654321'',
                  ''text'' \<mapsto> ''This is a test tweet #python'',
                  ''created_at'' \<mapsto> ''2023-03-15T14:30:00.000Z''],
      j_public_metrics = Some [''reply_count'' \<mapsto> 5, ''retweet_count'' \<mapsto> 10,
                               ''like_count'' \<mapsto> 50]\<rparr>"

definition test_user :: user_obj where
  "test_user = [''id'' \<mapsto> ''987654321'', ''name'' \<mapsto> ''Test User'', ''username'' \<mapsto> ''testuser'']"

definition bare_item :: tweet_obj where
  "bare_item = \<lparr>j_fields = Map.empty, j_public_metrics = None\<rparr>"

text \<open>
  Key normalization as the specification words it: at most one leading marker is
  removed.
\<close>

definition strip_one :: "char \<Rightarrow> string \<Rightarrow> string" where
  "strip_one marker s = (if s \<noteq> [] \<and> hd s = marker then tl s else s)"

text \<open>
  The display format as the specification words it, \<open>H:MM AM/PM - D Mon YYYY\<close>: the
  hour from 1 to 12 and the day from 1 to 31 without padding, the minute in two
  digits, AM or PM, the English abbreviation of the month, and the year in decimal
  digits.  The year is taken without leading zeros, as the code writes it.
\<close>

definition display_format :: "string \<Rightarrow> bool" where
  "display_format r =
     (\<exists>h a b ap d mon y.
        r = h @ '':'' @ [a, b] @ '' '' @ ap @ '' - '' @ d @ '' '' @ mon @ '' '' @ y
      \<and> h \<in> set [''1'', ''2'', ''3'', ''4'', ''5'', ''6'', ''7'', ''8'', ''9'', ''10'', ''11'', ''12'']
      \<and> a \<in> set ''012345'' \<and> b \<in> set ''0123456789''
      \<and> ap \<in> set [''AM'', ''PM'']
      \<and> d \<in> set [''1'', ''2'', ''3'', ''4'', ''5'', ''6'', ''7'', ''8'', ''9'', ''10'',
                   ''11'', ''12'', ''13'', ''14'', ''15'', ''16'', ''17'', ''18'', ''19'', ''20'',
                   ''21'', ''22'', ''23'', ''24'', ''25'', ''26'', ''27'', ''28'', ''29'', ''30'', ''31'']
      \<and> mon \<in> set [''Jan'', ''Feb'', ''Mar'', ''Apr'', ''May'', ''Jun'',
                     ''Jul'', ''Aug'', ''Sep'', ''Oct'', ''Nov'', ''Dec'']
      \<and> y \<noteq> [] \<and> set y \<subseteq> set ''0123456789'' \<and> hd y \<noteq> CHR ''0'')"

text \<open>A parser that knows the first instant of the year 999.\<close>

definition fromisoformat999 :: "string \<Rightarrow> py_exc + datetime" where
  "fromisoformat999 s =
     (if s = ''0999-01-01T00:00:00'' then Inr 31493836800000000
      else Inl (ValueError ''Invalid isoformat string''))"

section \<open>Basic facts about the platform and the loops\<close>

lemma bindE_Inl [simp]: "bindE (Inl e) f = Inl e"
  by (simp add: bindE_def)

lemma bindE_Inr [simp]: "bindE (Inr x) f = f x"
  by (simp add: bindE_def)

lemma bindE_eq_Inr: "bindE m f = Inr y \<longleftrightarrow> (\<exists>x. m = Inr x \<and> f x = Inr y)"
  by (cases m) simp_all


lemma sample_accounts_nonempty: "SAMPLE_ACCOUNTS \<noteq> []"
  by (simp add: SAMPLE_ACCOUNTS_def)

lemma sample_texts_nonempty: "SAMPLE_TEXTS \<noteq> []"
  by (simp add: SAMPLE_TEXTS_def)

lemma random_choice_cases:
  assumes "seq \<noteq> []"
  obtains x w' where "random_choice seq w = Inr (x, w')" "x \<in> set seq" "clock w' = clock w"
  using assms by (simp add: random_choice_def randbelow_def)

lemma randint_cases:
  assumes "a \<le> b"
  obtains n w' where "randint a b w = Inr (n, w')" "a \<le> n" "n \<le> b" "clock w' = clock w"
proof -
  have "entropy w 0 mod nat (b - a + 1) < nat (b - a + 1)"
    using assms by simp
  then have "a + int (entropy w 0 mod nat (b - a + 1)) \<le> b"
    using assms by linarith
  then show thesis
    using assms that by (simp add: randint_def randbelow_def)
qed

lemma generate_date_cases:
  obtains (ok) d w' where "generate_date i w = Inr (d, w')" "clock w' = (\<lambda>k. clock w (Suc k))"
      "0 \<le> clock w 0 - i * 43200000000" "clock w 0 - i * 43200000000 < DATETIME_MAX"
  | (overflow) "generate_date i w = Inl OverflowError"
      "clock w 0 - i * 43200000000 < 0 \<or> DATETIME_MAX \<le> clock w 0 - i * 43200000000"
  by (cases "clock w 0 - i * 43200000000 < 0 \<or> DATETIME_MAX \<le> clock w 0 - i * 43200000000")
     (auto simp: generate_date_def datetime_now_def datetime_sub_def)

lemma clock_ok_shift: "clock_ok w \<Longrightarrow> clock w' = (\<lambda>k. clock w (Suc k)) \<Longrightarrow> clock_ok w'"
  by (simp add: clock_ok_def)

lemma clock_ok_same: "clock_ok w \<Longrightarrow> clock w' = clock w \<Longrightarrow> clock_ok w'"
  by (simp add: clock_ok_def)

lemma generate_date_ok:
  assumes "clock_ok w" "0 \<le> i" "i \<le> 1438324"
  obtains d w' where "generate_date i w = Inr (d, w')" "clock w' = (\<lambda>k. clock w (Suc k))"
proof (cases rule: generate_date_cases[of i w])
  case (ok d w')
  then show ?thesis using that by blast
next
  case overflow
  have "UNIX_EPOCH \<le> clock w 0" "clock w 0 < DATETIME_MAX"
    using assms(1) by (simp_all add: clock_ok_def)
  with assms(2,3) overflow(2) have False
    by (simp add: UNIX_EPOCH_def DATETIME_MAX_def)
  then show ?thesis ..
qed

lemma hashtag_tweet_cases:
  obtains (ok) tw w' base where "hashtag_tweet h i w = Inr (tw, w')"
      "clock w' = (\<lambda>k. clock w (Suc k))"
      "account tw \<in> set SAMPLE_ACCOUNTS" "base \<in> set SAMPLE_TEXTS" "tag_forced h base tw"
      "0 \<le> clock w 0 - i * 43200000000" "clock w 0 - i * 43200000000 < DATETIME_MAX"
  | (overflow) "hashtag_tweet h i w = Inl OverflowError"
      "clock w 0 - i * 43200000000 < 0 \<or> DATETIME_MAX \<le> clock w 0 - i * 43200000000"
proof -
  obtain a w1 where a: "random_choice SAMPLE_ACCOUNTS w = Inr (a, w1)" "a \<in> set SAMPLE_ACCOUNTS"
      "clock w1 = clock w"
    using sample_accounts_nonempty by (rule random_choice_cases)
  obtain b w2 where b: "random_choice SAMPLE_TEXTS w1 = Inr (b, w2)" "b \<in> set SAMPLE_TEXTS"
      "clock w2 = clock w1"
    using sample_texts_nonempty by (rule random_choice_cases)
  show thesis
  proof (cases rule: generate_date_cases[of i w2])
    case (ok d w3)
    obtain rp w4 where rp: "randint 0 500 w3 = Inr (rp, w4)" "clock w4 = clock w3"
      by (rule randint_cases[of 0 500 w3]) simp_all
    obtain rt w5 where rt: "randint 0 1000 w4 = Inr (rt, w5)" "clock w5 = clock w4"
      by (rule randint_cases[of 0 1000 w4]) simp_all
    obtain lk w6 where lk: "randint 0 5000 w5 = Inr (lk, w6)" "clock w6 = clock w5"
      by (rule randint_cases[of 0 5000 w5]) simp_all
    let ?ex = "map (\<lambda>word. lower (drop 1 word)) (filter (\<lambda>word. startswith word ''#'') (py_split b))"
    let ?tw = "\<lparr>account = a, date = d,
                tweet_text = (if h \<notin> set ?ex then b @ [CHR 0x0A, CHR ''#''] @ h else b),
                replies = rp, retweets = rt, likes = lk,
                hashtags = map (\<lambda>tag. CHR ''#'' # tag) (if h \<notin> set ?ex then h # ?ex else ?ex)\<rparr>"
    have run: "hashtag_tweet h i w = Inr (?tw, w6)"
      by (simp add: hashtag_tweet_def a b ok rp rt lk Let_def)
    have forced: "tag_forced h b ?tw"
      by (simp add: tag_forced_def Let_def)
    show ?thesis
      by (rule that(1)[OF run _ _ b(2) forced]) (use a b ok rp rt lk in simp_all)
  next
    case overflow
    have "hashtag_tweet h i w = Inl OverflowError"
      by (simp add: hashtag_tweet_def a b overflow Let_def)
    then show ?thesis
      using overflow(2) a(3) b(3) by (intro that(2)) simp_all
  qed
qed

lemma user_tweet_cases:
  obtains (ok) tw w' where "user_tweet acc i w = Inr (tw, w')"
      "clock w' = (\<lambda>k. clock w (Suc k))" "account tw = acc"
      "0 \<le> clock w 0 - i * 43200000000" "clock w 0 - i * 43200000000 < DATETIME_MAX"
  | (overflow) "user_tweet acc i w = Inl OverflowError"
      "clock w 0 - i * 43200000000 < 0 \<or> DATETIME_MAX \<le> clock w 0 - i * 43200000000"
proof -
  obtain b w1 where b: "random_choice SAMPLE_TEXTS w = Inr (b, w1)" "clock w1 = clock w"
    using sample_texts_nonempty by (rule random_choice_cases)
  show thesis
  proof (cases rule: generate_date_cases[of i w1])
    case (ok d w2)
    obtain rp w3 where rp: "randint 0 500 w2 = Inr (rp, w3)" "clock w3 = clock w2"
      by (rule randint_cases[of 0 500 w2]) simp_all
    obtain rt w4 where rt: "randint 0 1000 w3 = Inr (rt, w4)" "clock w4 = clock w3"
      by (rule randint_cases[of 0 1000 w3]) simp_all
    obtain lk w5 where lk: "randint 0 5000 w4 = Inr (lk, w5)" "clock w5 = clock w4"
      by (rule randint_cases[of 0 5000 w4]) simp_all
    have "user_tweet acc i w =
            Inr (\<lparr>account = acc, date = d, tweet_text = b, replies = rp, retweets = rt, likes = lk,
                  hashtags = filter (\<lambda>word. startswith word ''#'') (py_split b)\<rparr>, w5)"
      by (simp add: user_tweet_def b ok rp rt lk)
    then show ?thesis
      by (rule that(1)) (use b ok rp rt lk in simp_all)
  next
    case overflow
    have "user_tweet acc i w = Inl OverflowError"
      by (simp add: user_tweet_def b overflow)
    then show ?thesis
      using overflow(2) b(2) by (intro that(2)) simp_all
  qed
qed

lemma append_loop_runs:
  assumes "clock_ok w"
    and "\<And>i v. i \<in> set is \<Longrightarrow> clock_ok v \<Longrightarrow> \<exists>x v'. body i v = Inr (x, v') \<and> clock_ok v'"
  shows "\<exists>new w'. append_loop body is acc w = Inr (acc @ new, w') \<and> length new = length is"
  using assms
proof (induction "is" arbitrary: acc w)
  case Nil
  then show ?case by simp
next
  case (Cons i "is")
  have "\<exists>x v'. body i w = Inr (x, v') \<and> clock_ok v'"
    by (rule Cons.prems(2)) (simp_all add: Cons.prems(1))
  then obtain x v' where x: "body i w = Inr (x, v')" "clock_ok v'"
    by blast
  have "\<exists>new w'. append_loop body is (acc @ [x]) v' = Inr ((acc @ [x]) @ new, w') \<and> length new = length is"
    by (rule Cons.IH[OF x(2)]) (rule Cons.prems(2), simp_all)
  then obtain new w' where "append_loop body is (acc @ [x]) v' = Inr ((acc @ [x]) @ new, w')"
      "length new = length is"
    by blast
  then have "append_loop body (i # is) acc w = Inr (acc @ (x # new), w') \<and> length (x # new) = length (i # is)"
    by (simp add: x)
  then show ?case by blast
qed

lemma append_loop_result:
  assumes "append_loop body is acc w = Inr (ts, w')"
    and "\<And>i v x v'. body i v = Inr (x, v') \<Longrightarrow> P x"
  shows "\<exists>new. ts = acc @ new \<and> length new = length is \<and> (\<forall>x \<in> set new. P x)"
  using assms(1)
proof (induction "is" arbitrary: acc w)
  case Nil
  then show ?case by simp
next
  case (Cons i "is")
  from Cons.prems obtain x v where x: "body i w = Inr (x, v)"
      and rest: "append_loop body is (acc @ [x]) v = Inr (ts, w')"
    by (auto simp: bindE_eq_Inr)
  from Cons.IH[OF rest] obtain new where new: "ts = (acc @ [x]) @ new" "length new = length is"
      "\<forall>y \<in> set new. P y"
    by blast
  have "P x" using x by (rule assms(2))
  with new have "ts = acc @ (x # new) \<and> length (x # new) = length (i # is) \<and> (\<forall>y \<in> set (x # new). P y)"
    by simp
  then show ?case by blast
qed


lemma in_py_range: "i \<in> set (py_range n) \<longleftrightarrow> 0 \<le> i \<and> i < n"
proof
  assume "i \<in> set (py_range n)"
  then obtain k where "k < nat n" "i = int k"
    by (auto simp: py_range_def)
  then show "0 \<le> i \<and> i < n" by linarith
next
  assume "0 \<le> i \<and> i < n"
  then have "nat i < nat n" "i = int (nat i)" by simp_all
  then show "i \<in> set (py_range n)"
    unfolding py_range_def by (metis atLeast0LessThan image_eqI lessThan_iff set_map set_upt)
qed

lemma length_py_range: "length (py_range n) = nat n"
  by (simp add: py_range_def)

lemma py_range_nonpos: "n \<le> 0 \<Longrightarrow> py_range n = []"
  by (simp add: py_range_def)

lemma no_overflow:
  assumes "clock_ok v" "0 \<le> i" "i \<le> 1438324"
  shows "\<not> (clock v 0 - i * 43200000000 < 0 \<or> DATETIME_MAX \<le> clock v 0 - i * 43200000000)"
proof -
  have "UNIX_EPOCH \<le> clock v 0" "clock v 0 < DATETIME_MAX"
    using assms(1) by (simp_all add: clock_ok_def)
  with assms(2,3) show ?thesis
    by (simp add: UNIX_EPOCH_def DATETIME_MAX_def)
qed

lemma hashtag_tweet_runs:
  assumes "clock_ok v" "0 \<le> i" "i \<le> 1438324"
  shows "\<exists>x v'. hashtag_tweet h i v = Inr (x, v') \<and> clock_ok v'"
proof (cases rule: hashtag_tweet_cases[of h i v])
  case (ok tw w' base)
  then show ?thesis using assms(1) clock_ok_shift by blast
next
  case overflow
  then show ?thesis using no_overflow[OF assms] by simp
qed

lemma user_tweet_runs:
  assumes "clock_ok v" "0 \<le> i" "i \<le> 1438324"
  shows "\<exists>x v'. user_tweet acc i v = Inr (x, v') \<and> clock_ok v'"
proof (cases rule: user_tweet_cases[of acc i v])
  case (ok tw w')
  then show ?thesis using assms(1) clock_ok_shift by blast
next
  case overflow
  then show ?thesis using no_overflow[OF assms] by simp
qed



lemma user_tweet_account: "user_tweet acc i v = Inr (tw, v') \<Longrightarrow> account tw = acc"
  by (cases rule: user_tweet_cases[of acc i v]) simp_all

lemma hashtag_tweet_forced:
  "hashtag_tweet h i v = Inr (tw, v') \<Longrightarrow> \<exists>base \<in> set SAMPLE_TEXTS. tag_forced h base tw"
  by (cases rule: hashtag_tweet_cases[of h i v]) auto

lemma resolve_account_cases:
  obtains acc w' where "resolve_account username w = Inr (acc, w')" "clock w' = clock w"
    "resolved username acc"
proof (cases "find (\<lambda>a. lower (lstrip ''/'' (href a)) = lower username) SAMPLE_ACCOUNTS")
  case None
  obtain n w' where n: "randint 1000000 99999999 w = Inr (n, w')" "1000000 \<le> n" "n \<le> 99999999"
      "clock w' = clock w"
    by (rule randint_cases[of 1000000 99999999 w]) simp_all
  have "resolve_account username w
          = Inr (\<lparr>fullname = title username, href = CHR ''/'' # username, account_id = n\<rparr>, w')"
    by (simp add: resolve_account_def None n)
  then show ?thesis
    by (rule that) (simp_all add: n resolved_def None)
next
  case (Some m)
  have "resolve_account username w = Inr (m, w)"
    by (simp add: resolve_account_def Some)
  then show ?thesis
    by (rule that) (simp_all add: resolved_def Some)
qed

lemma mock_hashtag_runs:
  assumes "hashtag \<noteq> []" "clock_ok w" "n \<le> 1438325"
  shows "\<exists>ts. outcome (mock_get_tweets_by_hashtag hashtag n w) = Inr ts \<and> length ts = nat n"
proof -
  have "\<exists>new w'. append_loop (hashtag_tweet (lower (lstrip ''#'' hashtag))) (py_range n) [] w
          = Inr ([] @ new, w') \<and> length new = length (py_range n)"
  proof (rule append_loop_runs[OF assms(2)])
    fix i v assume "i \<in> set (py_range n)" "clock_ok v"
    then show "\<exists>x v'. hashtag_tweet (lower (lstrip ''#'' hashtag)) i v = Inr (x, v') \<and> clock_ok v'"
      using assms(3) by (intro hashtag_tweet_runs) (simp_all add: in_py_range)
  qed
  then show ?thesis
    using assms(1) by (auto simp: mock_get_tweets_by_hashtag_def outcome_def length_py_range)
qed

lemma mock_user_runs:
  assumes "username \<noteq> []" "clock_ok w" "n \<le> 1438325"
  shows "\<exists>ts. outcome (mock_get_user_tweets username n w) = Inr ts \<and> length ts = nat n"
proof -
  obtain acc w1 where acc: "resolve_account (lstrip ''@'' username) w = Inr (acc, w1)"
      "clock w1 = clock w"
    by (rule resolve_account_cases)
  have ok1: "clock_ok w1"
    using assms(2) acc(2) by (rule clock_ok_same)
  have "\<exists>new w'. append_loop (user_tweet acc) (py_range n) [] w1
          = Inr ([] @ new, w') \<and> length new = length (py_range n)"
  proof (rule append_loop_runs[OF ok1])
    fix i v assume "i \<in> set (py_range n)" "clock_ok v"
    then show "\<exists>x v'. user_tweet acc i v = Inr (x, v') \<and> clock_ok v'"
      using assms(3) by (intro user_tweet_runs) (simp_all add: in_py_range)
  qed
  then show ?thesis
    using assms(1) by (auto simp: mock_get_user_tweets_def outcome_def length_py_range acc)
qed



lemma clock_ok_world0: "clock_ok world0"
  by (simp add: clock_ok_def world0_def UNIX_EPOCH_def DATETIME_MAX_def)

section \<open>What the Synthetic Backend returns\<close>

lemma lower_char_idem: "lower_char (lower_char c) = lower_char c"
  by (simp add: lower_char_def is_upper_def)

lemma lower_idem: "lower (lower s) = lower s"
  by (simp add: lower_def lower_char_idem)

lemma lower_hash: "lower (CHR ''#'' # s) = CHR ''#'' # lower s"
  by (simp add: lower_def lower_char_def is_upper_def)

lemma tag_forced_member: "tag_forced h base tw \<Longrightarrow> CHR ''#'' # h \<in> set (hashtags tw)"
  by (auto simp: tag_forced_def Let_def split: if_splits)

lemma mock_hashtag_result:
  assumes "tag \<noteq> []" "mock_get_tweets_by_hashtag tag n w = Inr (ts, w')"
  shows "length ts = nat n
       \<and> (\<forall>tw \<in> set ts. \<exists>base \<in> set SAMPLE_TEXTS. tag_forced (lower (lstrip ''#'' tag)) base tw)"
proof -
  from assms have "append_loop (hashtag_tweet (lower (lstrip ''#'' tag))) (py_range n) [] w = Inr (ts, w')"
    by (simp add: mock_get_tweets_by_hashtag_def)
  then have "\<exists>new. ts = [] @ new \<and> length new = length (py_range n)
      \<and> (\<forall>tw \<in> set new. \<exists>base \<in> set SAMPLE_TEXTS. tag_forced (lower (lstrip ''#'' tag)) base tw)"
    by (rule append_loop_result) (rule hashtag_tweet_forced)
  then show ?thesis
    by (simp add: length_py_range)
qed

lemma mock_user_result:
  assumes "username \<noteq> []" "mock_get_user_tweets username n w = Inr (ts, w')"
  shows "length ts = nat n
       \<and> (\<exists>acc. resolved (lstrip ''@'' username) acc \<and> (\<forall>tw \<in> set ts. account tw = acc))"
proof -
  obtain acc w1 where acc: "resolve_account (lstrip ''@'' username) w = Inr (acc, w1)"
      "resolved (lstrip ''@'' username) acc"
    by (rule resolve_account_cases)
  from assms have "append_loop (user_tweet acc) (py_range n) [] w1 = Inr (ts, w')"
    by (simp add: mock_get_user_tweets_def acc)
  then have "\<exists>new. ts = [] @ new \<and> length new = length (py_range n) \<and> (\<forall>tw \<in> set new. account tw = acc)"
    by (rule append_loop_result) (rule user_tweet_account)
  then show ?thesis
    using acc(2) by (auto simp: length_py_range)
qed

section \<open>Runs in the sample world\<close>

lemma world0_entropy_step: "world0\<lparr>entropy := \<lambda>k. entropy world0 (Suc k)\<rparr> = world0"
  by (simp add: world0_def)

lemma world0_clock_step: "world0\<lparr>clock := \<lambda>k. clock world0 (Suc k)\<rparr> = world0"
  by (simp add: world0_def)

lemma randbelow_world0: "randbelow n world0 = (0, world0)"
  by (simp add: randbelow_def world0_entropy_step) (simp add: world0_def)

lemma choice_account_world0:
  "random_choice SAMPLE_ACCOUNTS world0
     = Inr (\<lparr>fullname = ''Raymond Hettinger'', href = ''/raymondh'', account_id = 14159138\<rparr>, world0)"
  by (simp add: random_choice_def randbelow_world0) (simp add: SAMPLE_ACCOUNTS_def)

lemma choice_text_world0:
  \<open>random_choice SAMPLE_TEXTS world0
     = Inr (''Just released a new #Python library for data processing! Check it out: github.com/example'', world0)\<close>
  by (simp add: random_choice_def randbelow_world0) (simp add: SAMPLE_TEXTS_def)

lemma randint_world0: "a \<le> b \<Longrightarrow> randint a b world0 = Inr (a, world0)"
  by (simp add: randint_def randbelow_world0)

lemma ord2ymd_sample: "ord2ymd 738593 = (2023, 3, 15)"
  by (simp add: ord2ymd_def Let_def DAYS_BEFORE_MONTH_def DAYS_IN_MONTH_def)

lemma directive_sample:
  "directive 63814487400000000 True CHR ''I'' = ''2''"
  "directive 63814487400000000 False CHR ''M'' = ''30''"
  "directive 63814487400000000 False CHR ''p'' = ''PM''"
  "directive 63814487400000000 True CHR ''d'' = ''15''"
  "directive 63814487400000000 False CHR ''b'' = ''Mar''"
  "directive 63814487400000000 False CHR ''Y'' = ''2023''"
  by (simp_all add: directive_def)
     (simp_all add: zero_pad_def hour12_def dt_hour_def dt_minute_def dt_day_def dt_month_def
      dt_year_def US_PER_DAY_def ord2ymd_sample MONTH_ABBR_def str_nat.simps char_of_eq_iff)

lemma strftime_sample:
  "strftime 63814487400000000 ''%-I:%M %p - %-d %b %Y'' = ''2:30 PM - 15 Mar 2023''"
  by (simp add: directive_sample)

lemma generate_date_world0: "generate_date 0 world0 = Inr (''2:30 PM - 15 Mar 2023'', world0)"
  by (simp add: generate_date_def datetime_now_def world0_clock_step datetime_sub_def)
     (simp add: world0_def DATETIME_MAX_def directive_sample)

lemma sample_text_tags:
  \<open>map (\<lambda>word. lower (drop 1 word)) (filter (\<lambda>word. startswith word ''#'')
     (py_split ''Just released a new #Python library for data processing! Check it out: github.com/example''))
   = [''python'']\<close>
  by code_simp

lemma sample_text_words:
  \<open>filter (\<lambda>word. startswith word ''#'')
     (py_split ''Just released a new #Python library for data processing! Check it out: github.com/example'')
   = [''#Python'']\<close>
  by code_simp

lemma py_range_one: "py_range 1 = [0]"
  by (simp add: py_range_def)

lemma randint_world0_metrics:
  "randint 0 500 world0 = Inr (0, world0)"
  "randint 0 1000 world0 = Inr (0, world0)"
  "randint 0 5000 world0 = Inr (0, world0)"
  "randint 1000000 99999999 world0 = Inr (1000000, world0)"
  by (simp_all add: randint_world0)

lemma hashtag_tweet_world0:
  \<open>hashtag_tweet h 0 world0 =
     Inr (\<lparr>account = \<lparr>fullname = ''Raymond Hettinger'', href = ''/raymondh'', account_id = 14159138\<rparr>,
           date = ''2:30 PM - 15 Mar 2023'',
           tweet_text = (if h \<notin> set [''python'']
              then ''Just released a new #Python library for data processing! Check it out: github.com/example'' @ [CHR 0x0A, CHR ''#''] @ h
              else ''Just released a new #Python library for data processing! Check it out: github.com/example''),
           replies = 0, retweets = 0, likes = 0,
           hashtags = map (\<lambda>tag. CHR ''#'' # tag) (if h \<notin> set [''python''] then h # [''python''] else [''python''])\<rparr>,
          world0)\<close>
  by (simp only: hashtag_tweet_def choice_account_world0 choice_text_world0 bindE_Inr prod.case
      Let_def sample_text_tags generate_date_world0 randint_world0_metrics)

lemma user_tweet_world0:
  \<open>user_tweet acc 0 world0 =
     Inr (\<lparr>account = acc, date = ''2:30 PM - 15 Mar 2023'',
           tweet_text = ''Just released a new #Python library for data processing! Check it out: github.com/example'',
           replies = 0, retweets = 0, likes = 0, hashtags = [''#Python'']\<rparr>, world0)\<close>
  by (simp only: user_tweet_def choice_text_world0 bindE_Inr prod.case
      sample_text_words generate_date_world0 randint_world0_metrics)

lemma run_hash:
  \<open>mock_get_tweets_by_hashtag ''#'' 1 world0 =
     Inr ([\<lparr>account = \<lparr>fullname = ''Raymond Hettinger'', href = ''/raymondh'', account_id = 14159138\<rparr>,
            date = ''2:30 PM - 15 Mar 2023'',
            tweet_text = ''Just released a new #Python library for data processing! Check it out: github.com/example'' @ [CHR 0x0A] @ ''#'',
            replies = 0, retweets = 0, likes = 0, hashtags = [''#'', ''#python'']\<rparr>], world0)\<close>
  by (simp add: mock_get_tweets_by_hashtag_def lstrip_def py_range_one hashtag_tweet_world0 lower_def)

lemma find_unknown:
  "find (\<lambda>a. lower (lstrip ''/'' (href a)) = lower ''unknownuser123'') SAMPLE_ACCOUNTS = None"
  by code_simp

lemma title_unknown: "title ''unknownuser123'' = ''Unknownuser123''"
  by code_simp

lemma lstrip_unknown: "lstrip ''@'' ''unknownuser123'' = ''unknownuser123''"
  by (simp add: lstrip_def)

lemma run_unknown:
  \<open>mock_get_user_tweets ''unknownuser123'' 1 world0 =
     Inr ([\<lparr>account = \<lparr>fullname = ''Unknownuser123'', href = ''/unknownuser123'', account_id = 1000000\<rparr>,
            date = ''2:30 PM - 15 Mar 2023'',
            tweet_text = ''Just released a new #Python library for data processing! Check it out: github.com/example'',
            replies = 0, retweets = 0, likes = 0, hashtags = [''#Python'']\<rparr>], world0)\<close>
  by (simp add: mock_get_user_tweets_def lstrip_unknown py_range_one resolve_account_def find_unknown
      title_unknown randint_world0_metrics user_tweet_world0)

section \<open>Timestamps\<close>

lemma strftime_display:
  "strftime dt ''%-I:%M %p - %-d %b %Y'' =
     str_nat (hour12 dt) @ '':'' @ zero_pad 2 (str_nat (dt_minute dt)) @ '' ''
       @ (if dt_hour dt < 12 then ''AM'' else ''PM'') @ '' - '' @ str_nat (dt_day dt) @ '' ''
       @ MONTH_ABBR ! dt_month dt @ '' '' @ str_nat (dt_year dt)"
  by (simp add: directive_def zero_pad_def)

lemma format_date_parsed:
  "f (replace s CHR ''Z'' ''+00:00'') = Inr dt
     \<Longrightarrow> format_date f s = Inr (strftime dt ''%-I:%M %p - %-d %b %Y'')"
  by (simp add: format_date_def)

lemma format_date_failed:
  "iso_contract f \<Longrightarrow> f (replace s CHR ''Z'' ''+00:00'') = Inl e \<Longrightarrow> format_date f s = Inr s"
  by (simp add: format_date_def iso_contract_def)

lemma format_date_total:
  assumes "iso_contract f"
  obtains r where "format_date f s = Inr r"
  using assms by (cases "f (replace s CHR ''Z'' ''+00:00'')")
    (auto simp: format_date_failed format_date_parsed)

lemma replace_trailing:
  "old \<notin> set b \<Longrightarrow> replace (b @ [old]) old new = b @ new"
  by (induction b) (auto simp: replace_def)

lemma iso_contract0: "iso_contract fromisoformat0"
  by (simp add: iso_contract_def fromisoformat0_def)

lemma replace_sample:
  "replace ''2023-03-15T14:30:00.000Z'' CHR ''Z'' ''+00:00'' = ''2023-03-15T14:30:00.000+00:00''"
  by (simp add: replace_def)

lemma replace_plain: "replace ''yesterday'' CHR ''Z'' ''+00:00'' = ''yesterday''"
  by (simp add: replace_def)

lemma fromisoformat0_sample:
  "fromisoformat0 ''2023-03-15T14:30:00.000+00:00'' = Inr 63814487400000000"
  "fromisoformat0 ''yesterday'' = Inl (ValueError ''Invalid isoformat string'')"
  by (simp_all add: fromisoformat0_def)

lemma format_date_sample:
  "format_date fromisoformat0 ''2023-03-15T14:30:00.000Z'' = Inr ''2:30 PM - 15 Mar 2023''"
proof -
  have "fromisoformat0 (replace ''2023-03-15T14:30:00.000Z'' CHR ''Z'' ''+00:00'') = Inr 63814487400000000"
    by (simp only: replace_sample fromisoformat0_sample)
  then have "format_date fromisoformat0 ''2023-03-15T14:30:00.000Z''
               = Inr (strftime 63814487400000000 ''%-I:%M %p - %-d %b %Y'')"
    by (rule format_date_parsed)
  then show ?thesis
    by (simp only: strftime_sample)
qed

section \<open>Payload normalization\<close>

lemma py_int_author: "py_int ''987654321'' = Some 987654321"
  by code_simp

lemma py_split_test:
  "filter (\<lambda>word. startswith word ''#'') (py_split ''This is a test tweet #python'') = [''#python'']"
  by code_simp

lemma parse_tweet_metrics:
  assumes "parse_tweet f users item = Inr tw"
  shows "replies tw = (case metric_of item ''reply_count'' of None \<Rightarrow> 0 | Some v \<Rightarrow> v)
       \<and> retweets tw = (case metric_of item ''retweet_count'' of None \<Rightarrow> 0 | Some v \<Rightarrow> v)
       \<and> likes tw = (case metric_of item ''like_count'' of None \<Rightarrow> 0 | Some v \<Rightarrow> v)"
proof -
  let ?m = "case j_public_metrics item of None \<Rightarrow> Map.empty | Some m \<Rightarrow> m"
  from assms have "replies tw = dict_get ?m ''reply_count'' 0
      \<and> retweets tw = dict_get ?m ''retweet_count'' 0 \<and> likes tw = dict_get ?m ''like_count'' 0"
    by (auto simp: parse_tweet_def Let_def bindE_eq_Inr)
  then show ?thesis
    by (cases "j_public_metrics item") (simp_all add: metric_of_def dict_get_def)
qed

lemma parse_tweet_test:
  assumes f: "iso_contract f"
    and item: "j_fields item ''author_id'' = Some ''987654321''"
      "j_fields item ''text'' = Some ''This is a test tweet #python''"
    and users: "users ''987654321'' = Some user" "user ''name'' = Some ''Test User''"
  shows "\<exists>d u. parse_tweet f users item =
           Inr \<lparr>account = \<lparr>fullname = ''Test User'', href = CHR ''/'' # u, account_id = 987654321\<rparr>,
                date = d, tweet_text = ''This is a test tweet #python'',
                replies = (case metric_of item ''reply_count'' of None \<Rightarrow> 0 | Some v \<Rightarrow> v),
                retweets = (case metric_of item ''retweet_count'' of None \<Rightarrow> 0 | Some v \<Rightarrow> v),
                likes = (case metric_of item ''like_count'' of None \<Rightarrow> 0 | Some v \<Rightarrow> v),
                hashtags = [''#python'']\<rparr>"
proof -
  obtain d where d: "format_date f (dict_get (j_fields item) ''created_at'' []) = Inr d"
    using f by (rule format_date_total)
  have m: "dict_get (case j_public_metrics item of None \<Rightarrow> Map.empty | Some m \<Rightarrow> m) key 0
             = (case metric_of item key of None \<Rightarrow> 0 | Some v \<Rightarrow> v)" for key
    by (cases "j_public_metrics item") (simp_all add: metric_of_def dict_get_def)
  have a: "dict_get users ''987654321'' Map.empty = user"
    "dict_get user ''name'' ''Unknown'' = ''Test User''"
    "dict_get (j_fields item) ''text'' [] = ''This is a test tweet #python''"
    by (simp_all add: dict_get_def item users)
  show ?thesis
    by (simp add: parse_tweet_def Let_def item(1) a m py_int_author py_split_test d)
qed

section \<open>Requests of the Upstream Backend and key normalization\<close>

lemma api_init_test: "api_init (Some ''test_token'') None = Inr api0"
  by (simp add: api_init_def api0_def)

lemma str_int_small: "str_int 100 = ''100''" "str_int 1 = ''1''" "str_int 0 = ''0''"
  by (simp_all add: str_int_def str_nat.simps char_of_eq_iff)

lemma echo_hash:
  "api_get_tweets_by_hashtag api0 net_echo f ''#'' 1 =
     Inl (RuntimeError ''API request failed: https://api.twitter.com/2/tweets/search/recent?query=#&max_results=1&tweet.fields=created_at,public_metrics,text&expansions=author_id&user.fields=id,name,username&'')"
  by (simp add: api_get_tweets_by_hashtag_def lstrip_def net_echo_def BASE_URL_def show_param_def
      str_int_small)

lemma echo_at:
  "api_get_user_tweets api0 net_echo f ''@'' 1 =
     Inl (RuntimeError ''API request failed: https://api.twitter.com/2/users/by/username/?user.fields=id,name,username&'')"
  by (simp add: api_get_user_tweets_def lstrip_def net_echo_def BASE_URL_def show_param_def)





lemma lstrip_replicate: "lstrip [m] (replicate k m @ s) = lstrip [m] s"
  by (induction k) (simp_all add: lstrip_def)

lemma lstrip_decompose: "\<exists>k. s = replicate k m @ lstrip [m] s"
proof (induction s)
  case Nil
  then show ?case by (simp add: lstrip_def)
next
  case (Cons c s)
  show ?case
  proof (cases "c = m")
    case True
    from Cons obtain k where "s = replicate k m @ lstrip [m] s" by blast
    then have "c # s = replicate (Suc k) m @ lstrip [m] (c # s)"
      using True by (simp add: lstrip_def)
    then show ?thesis by blast
  next
    case False
    then have "c # s = replicate 0 m @ lstrip [m] (c # s)"
      by (simp add: lstrip_def)
    then show ?thesis by blast
  qed
qed

lemma lstrip_no_marker: "\<not> startswith (lstrip [m] s) [m]"
  by (induction s) (simp_all add: lstrip_def startswith_def)

lemma lower_char_hash: "lower_char c = CHR ''#'' \<longleftrightarrow> c = CHR ''#''"
proof
  assume eq: "lower_char c = CHR ''#''"
  have "(of_char (lower_char c) :: nat) = (if is_upper c then of_char c + 32 else of_char c)"
    by (simp add: lower_char_def is_upper_def)
  with eq have "(if is_upper c then of_char c + 32 else of_char c) = (35::nat)"
    by simp
  then have "(of_char c :: nat) = of_char CHR ''#''"
    by (simp add: is_upper_def split: if_splits)
  then show "c = CHR ''#''"
    by (simp only: of_char_eq_iff)
next
  assume "c = CHR ''#''"
  then show "lower_char c = CHR ''#''"
    by (simp add: lower_char_def is_upper_def)
qed

lemma lstrip_lower: "lstrip ''#'' (lower s) = lower (lstrip ''#'' s)"
  by (induction s) (simp_all add: lstrip_def lower_def lower_char_hash)

lemma lower_eq_Nil: "lower s = [] \<longleftrightarrow> s = []"
  by (simp add: lower_def)

lemma mock_hashtag_markers:
  assumes "key \<noteq> []"
  shows "mock_get_tweets_by_hashtag (replicate k CHR ''#'' @ key) n w
           = mock_get_tweets_by_hashtag (lower key) n w"
  using assms lstrip_replicate[of "CHR ''#''" k key]
  by (simp add: mock_get_tweets_by_hashtag_def lower_eq_Nil lstrip_lower lower_idem)

lemma mock_user_markers:
  assumes "key \<noteq> []"
  shows "mock_get_user_tweets (replicate k CHR ''@'' @ key) n w = mock_get_user_tweets key n w"
  using assms lstrip_replicate[of "CHR ''@''" k key]
  by (simp add: mock_get_user_tweets_def)

lemma api_hashtag_markers:
  assumes "key \<noteq> []"
  shows "api_get_tweets_by_hashtag self net f (replicate k CHR ''#'' @ key) n
           = api_get_tweets_by_hashtag self net f key n"
  using assms lstrip_replicate[of "CHR ''#''" k key]
  by (simp add: api_get_tweets_by_hashtag_def)

lemma api_user_markers:
  assumes "key \<noteq> []"
  shows "api_get_user_tweets self net f (replicate k CHR ''@'' @ key) n
           = api_get_user_tweets self net f key n"
  using assms lstrip_replicate[of "CHR ''@''" k key]
  by (simp add: api_get_user_tweets_def)

section \<open>More runs in the sample world\<close>

lemma run_python:
  \<open>mock_get_tweets_by_hashtag ''Python'' 1 world0 =
     Inr ([\<lparr>account = \<lparr>fullname = ''Raymond Hettinger'', href = ''/raymondh'', account_id = 14159138\<rparr>,
            date = ''2:30 PM - 15 Mar 2023'',
            tweet_text = ''Just released a new #Python library for data processing! Check it out: github.com/example'',
            replies = 0, retweets = 0, likes = 0, hashtags = [''#python'']\<rparr>], world0)\<close>
  by (simp add: mock_get_tweets_by_hashtag_def lstrip_def py_range_one hashtag_tweet_world0 lower_def
      lower_char_def is_upper_def char_of_eq_iff)

lemma run_two_hashes:
  \<open>mock_get_tweets_by_hashtag ''##python'' 1 world0 =
     Inr ([\<lparr>account = \<lparr>fullname = ''Raymond Hettinger'', href = ''/raymondh'', account_id = 14159138\<rparr>,
            date = ''2:30 PM - 15 Mar 2023'',
            tweet_text = ''Just released a new #Python library for data processing! Check it out: github.com/example'',
            replies = 0, retweets = 0, likes = 0, hashtags = [''#python'']\<rparr>], world0)\<close>
  by (simp add: mock_get_tweets_by_hashtag_def lstrip_def py_range_one hashtag_tweet_world0 lower_def
      lower_char_def is_upper_def char_of_eq_iff)

lemma find_empty_name:
  "find (\<lambda>a. lower (lstrip ''/'' (href a)) = lower []) SAMPLE_ACCOUNTS = None"
  by code_simp

lemma run_at:
  \<open>mock_get_user_tweets ''@'' 1 world0 =
     Inr ([\<lparr>account = \<lparr>fullname = [], href = ''/'', account_id = 1000000\<rparr>,
            date = ''2:30 PM - 15 Mar 2023'',
            tweet_text = ''Just released a new #Python library for data processing! Check it out: github.com/example'',
            replies = 0, retweets = 0, likes = 0, hashtags = [''#Python'']\<rparr>], world0)\<close>
proof -
  have "lstrip ''@'' ''@'' = []"
    by (simp add: lstrip_def)
  then show ?thesis
    by (simp add: mock_get_user_tweets_def py_range_one resolve_account_def find_empty_name
        title_def randint_world0_metrics user_tweet_world0)
qed

lemma find_twitter:
  "find (\<lambda>a. lower (lstrip ''/'' (href a)) = lower ''twitter'') SAMPLE_ACCOUNTS
     = Some \<lparr>fullname = ''Twitter'', href = ''/Twitter'', account_id = 783214\<rparr>"
  by code_simp

lemma run_twitter:
  \<open>mock_get_user_tweets ''@twitter'' 1 world0 =
     Inr ([\<lparr>account = \<lparr>fullname = ''Twitter'', href = ''/Twitter'', account_id = 783214\<rparr>,
            date = ''2:30 PM - 15 Mar 2023'',
            tweet_text = ''Just released a new #Python library for data processing! Check it out: github.com/example'',
            replies = 0, retweets = 0, likes = 0, hashtags = [''#Python'']\<rparr>], world0)\<close>
proof -
  have "lstrip ''@'' ''@twitter'' = ''twitter''"
    by (simp add: lstrip_def)
  then show ?thesis
    by (simp add: mock_get_user_tweets_def py_range_one resolve_account_def find_twitter
        user_tweet_world0)
qed

lemma echo_two_hashes:
  "api_get_tweets_by_hashtag api0 net_echo f ''##python'' 1 =
     Inl (RuntimeError ''API request failed: https://api.twitter.com/2/tweets/search/recent?query=#python&max_results=1&tweet.fields=created_at,public_metrics,text&expansions=author_id&user.fields=id,name,username&'')"
  by (simp add: api_get_tweets_by_hashtag_def lstrip_def net_echo_def BASE_URL_def show_param_def
      str_int_small)

lemma metric_of_test_item:
  "metric_of test_item ''reply_count'' = Some 5"
  "metric_of test_item ''retweet_count'' = Some 10"
  "metric_of test_item ''like_count'' = Some 50"
  by (simp_all add: metric_of_def test_item_def)

lemma parse_test_payload:
  "parse_tweets_response fromisoformat0
     \<lparr>j_data = Some [test_item], j_includes = Some \<lparr>j_users = Some [test_user]\<rparr>\<rparr> =
   Inr [\<lparr>account = \<lparr>fullname = ''Test User'', href = ''/testuser'', account_id = 987654321\<rparr>,
         date = ''2:30 PM - 15 Mar 2023'', tweet_text = ''This is a test tweet #python'',
         replies = 5, retweets = 10, likes = 50, hashtags = [''#python'']\<rparr>]"
proof -
  have a: "j_fields test_item ''author_id'' = Some ''987654321''"
    "dict_get (j_fields test_item) ''text'' [] = ''This is a test tweet #python''"
    "dict_get (j_fields test_item) ''created_at'' [] = ''2023-03-15T14:30:00.000Z''"
    "j_public_metrics test_item = Some [''reply_count'' \<mapsto> 5, ''retweet_count'' \<mapsto> 10, ''like_count'' \<mapsto> 50]"
    by (simp_all add: test_item_def dict_get_def)
  have u: "test_user ''id'' = Some ''987654321''"
    "dict_get [''987654321'' \<mapsto> test_user] ''987654321'' Map.empty = test_user"
    "dict_get test_user ''name'' ''Unknown'' = ''Test User''"
    "dict_get test_user ''username'' ''unknown'' = ''testuser''"
    by (simp_all add: test_user_def dict_get_def)
  have m: "dict_get [''reply_count'' \<mapsto> 5, ''retweet_count'' \<mapsto> 10, ''like_count'' \<mapsto> 50] ''reply_count'' 0 = (5::int)"
    "dict_get [''reply_count'' \<mapsto> 5, ''retweet_count'' \<mapsto> 10, ''like_count'' \<mapsto> 50] ''retweet_count'' 0 = (10::int)"
    "dict_get [''reply_count'' \<mapsto> 5, ''retweet_count'' \<mapsto> 10, ''like_count'' \<mapsto> 50] ''like_count'' 0 = (50::int)"
    by (simp_all add: dict_get_def)
  have t: "parse_tweet fromisoformat0 [''987654321'' \<mapsto> test_user] test_item =
     Inr \<lparr>account = \<lparr>fullname = ''Test User'', href = ''/testuser'', account_id = 987654321\<rparr>,
          date = ''2:30 PM - 15 Mar 2023'', tweet_text = ''This is a test tweet #python'',
          replies = 5, retweets = 10, likes = 50, hashtags = [''#python'']\<rparr>"
    by (simp add: parse_tweet_def Let_def a u m py_int_author py_split_test format_date_sample)
  show ?thesis
    by (simp add: parse_tweets_response_def u(1) t)
qed

lemma parse_bare_item:
  "parse_tweet fromisoformat0 Map.empty bare_item =
     Inr \<lparr>account = \<lparr>fullname = ''Unknown'', href = ''/unknown'', account_id = 0\<rparr>,
          date = [], tweet_text = [], replies = 0, retweets = 0, likes = 0, hashtags = []\<rparr>"
proof -
  have "format_date fromisoformat0 [] = Inr []"
    by (simp add: format_date_def replace_def fromisoformat0_def)
  then show ?thesis
    by (simp add: parse_tweet_def Let_def bare_item_def dict_get_def py_split_def)
qed


lemma py_int_samples:
  "py_int ''50'' = Some 50" "py_int ''1'' = Some 1" "py_int ''100'' = Some 100"
  "py_int ''0'' = Some 0" "py_int ''200'' = Some 200" "py_int ''abc'' = None"
  "py_int ''7'' = Some 7"
  by code_simp+

lemma validate_limit_cases:
  "validate_limit None (Some d) = Inr d"
  "validate_limit None None = Inr 30"
  "py_int s = None \<Longrightarrow> invalid_input (validate_limit (Some s) dflt)"
  "py_int s = Some v \<Longrightarrow> v < 1 \<Longrightarrow> invalid_input (validate_limit (Some s) dflt)"
  "py_int s = Some v \<Longrightarrow> 100 < v \<Longrightarrow> invalid_input (validate_limit (Some s) dflt)"
  "py_int s = Some v \<Longrightarrow> 1 \<le> v \<Longrightarrow> v \<le> 100 \<Longrightarrow> validate_limit (Some s) dflt = Inr v"
  by (simp_all add: validate_limit_def invalid_input_def DEFAULT_TWEET_LIMIT_def MIN_TWEET_LIMIT_def
      MAX_TWEET_LIMIT_def)

section \<open>The display format\<close>

lemma digit_char:
  assumes "(k::nat) < 10"
  shows "char_of (48 + k) \<in> set ''0123456789''"
proof -
  from assms have "k = 0 \<or> k = 1 \<or> k = 2 \<or> k = 3 \<or> k = 4 \<or> k = 5 \<or> k = 6 \<or> k = 7 \<or> k = 8 \<or> k = (9::nat)"
    by arith
  then show ?thesis
    by (elim disjE) (simp_all add: char_of_eq_iff)
qed

lemma digit_char_nonzero:
  assumes "0 < (k::nat)" "k < 10"
  shows "char_of (48 + k) \<noteq> CHR ''0''"
  using assms by (simp add: char_of_eq_iff take_bit_eq_mod)

lemma tens_char:
  assumes "(k::nat) < 6"
  shows "char_of (48 + k) \<in> set ''012345''"
proof -
  from assms have "k = 0 \<or> k = 1 \<or> k = 2 \<or> k = 3 \<or> k = 4 \<or> k = (5::nat)"
    by arith
  then show ?thesis
    by (elim disjE) (simp_all add: char_of_eq_iff)
qed

lemma str_nat_nonempty: "str_nat n \<noteq> []"
  by (subst str_nat.simps) simp

lemma str_nat_digits: "set (str_nat n) \<subseteq> set ''0123456789''"
proof (induction n rule: str_nat.induct)
  case (1 n)
  show ?case
  proof (cases "n < 10")
    case True
    then have "str_nat n = [char_of (48 + n)]"
      by (subst str_nat.simps) simp
    with digit_char[OF True] show ?thesis by simp
  next
    case False
    then have eq: "str_nat n = str_nat (n div 10) @ [char_of (48 + n mod 10)]"
      by (subst str_nat.simps) simp
    have "char_of (48 + n mod 10) \<in> set ''0123456789''"
      by (rule digit_char) simp
    with "1.IH"[OF False] show ?thesis
      unfolding eq by simp
  qed
qed

lemma str_nat_no_leading_zero: "0 < n \<Longrightarrow> hd (str_nat n) \<noteq> CHR ''0''"
proof (induction n rule: str_nat.induct)
  case (1 n)
  show ?case
  proof (cases "n < 10")
    case True
    then have "str_nat n = [char_of (48 + n)]"
      by (subst str_nat.simps) simp
    with digit_char_nonzero[OF "1.prems" True] show ?thesis by simp
  next
    case False
    then have eq: "str_nat n = str_nat (n div 10) @ [char_of (48 + n mod 10)]"
      by (subst str_nat.simps) simp
    have "0 < n div 10" using False by simp
    with "1.IH"[OF False] have "hd (str_nat (n div 10)) \<noteq> CHR ''0''" by simp
    then show ?thesis
      unfolding eq by (simp add: str_nat_nonempty)
  qed
qed

lemma str_nat_hour:
  assumes "1 \<le> h" "h \<le> 12"
  shows "str_nat h \<in> set [''1'', ''2'', ''3'', ''4'', ''5'', ''6'', ''7'', ''8'', ''9'', ''10'', ''11'', ''12'']"
proof -
  from assms have "h = 1 \<or> h = 2 \<or> h = 3 \<or> h = 4 \<or> h = 5 \<or> h = 6 \<or> h = 7 \<or> h = 8 \<or> h = 9
      \<or> h = 10 \<or> h = 11 \<or> h = (12::nat)"
    by arith
  then show ?thesis
    by (elim disjE) (simp_all add: str_nat.simps char_of_eq_iff)
qed

lemma str_nat_two_digits:
  assumes "10 \<le> m" "m < 100"
  shows "str_nat m = [char_of (48 + m div 10), char_of (48 + m mod 10)]"
proof -
  have "str_nat m = str_nat (m div 10) @ [char_of (48 + m mod 10)]"
    using assms by (subst str_nat.simps) simp
  moreover have "m div 10 < 10"
    using assms by simp
  then have "str_nat (m div 10) = [char_of (48 + m div 10)]"
    by (subst str_nat.simps) simp
  ultimately show ?thesis by simp
qed

lemma minute_two_digits:
  assumes "m < 60"
  shows "\<exists>a b. zero_pad 2 (str_nat m) = [a, b] \<and> a \<in> set ''012345'' \<and> b \<in> set ''0123456789''"
proof (cases "m < 10")
  case True
  then have "str_nat m = [char_of (48 + m)]"
    by (subst str_nat.simps) simp
  then have "zero_pad 2 (str_nat m) = [CHR ''0'', char_of (48 + m)]"
    by (simp add: zero_pad_def)
  with digit_char[OF True] show ?thesis by simp
next
  case False
  then have "str_nat m = [char_of (48 + m div 10), char_of (48 + m mod 10)]"
    using assms by (intro str_nat_two_digits) simp_all
  then have "zero_pad 2 (str_nat m) = [char_of (48 + m div 10), char_of (48 + m mod 10)]"
    by (simp add: zero_pad_def)
  moreover have "char_of (48 + m div 10) \<in> set ''012345''"
    using assms by (intro tens_char) simp
  moreover have "char_of (48 + m mod 10) \<in> set ''0123456789''"
    by (intro digit_char) simp
  ultimately show ?thesis by blast
qed

lemma str_nat_day:
  assumes "1 \<le> d" "d \<le> 31"
  shows "str_nat d \<in> set [''1'', ''2'', ''3'', ''4'', ''5'', ''6'', ''7'', ''8'', ''9'', ''10'',
                   ''11'', ''12'', ''13'', ''14'', ''15'', ''16'', ''17'', ''18'', ''19'', ''20'',
                   ''21'', ''22'', ''23'', ''24'', ''25'', ''26'', ''27'', ''28'', ''29'', ''30'', ''31'']"
proof -
  from assms have "d = 1 \<or> d = 2 \<or> d = 3 \<or> d = 4 \<or> d = 5 \<or> d = 6 \<or> d = 7 \<or> d = 8 \<or> d = 9
      \<or> d = 10 \<or> d = 11 \<or> d = 12 \<or> d = 13 \<or> d = 14 \<or> d = 15 \<or> d = 16 \<or> d = 17 \<or> d = 18
      \<or> d = 19 \<or> d = 20 \<or> d = 21 \<or> d = 22 \<or> d = 23 \<or> d = 24 \<or> d = 25 \<or> d = 26 \<or> d = 27
      \<or> d = 28 \<or> d = 29 \<or> d = 30 \<or> d = (31::nat)"
    by arith
  then show ?thesis
    by (elim disjE) (simp_all add: str_nat.simps char_of_eq_iff)
qed

lemma month_abbr:
  assumes "1 \<le> m" "m \<le> 12"
  shows "MONTH_ABBR ! m \<in> set [''Jan'', ''Feb'', ''Mar'', ''Apr'', ''May'', ''Jun'',
                     ''Jul'', ''Aug'', ''Sep'', ''Oct'', ''Nov'', ''Dec'']"
proof -
  from assms have "m = 1 \<or> m = 2 \<or> m = 3 \<or> m = 4 \<or> m = 5 \<or> m = 6 \<or> m = 7 \<or> m = 8 \<or> m = 9
      \<or> m = 10 \<or> m = 11 \<or> m = (12::nat)"
    by arith
  then show ?thesis
    by (elim disjE) (simp_all add: MONTH_ABBR_def)
qed

lemma hour12_range: "1 \<le> hour12 dt \<and> hour12 dt \<le> 12"
proof -
  have "dt_hour dt mod 12 < 12" by simp
  then show ?thesis
    by (auto simp: hour12_def)
qed

lemma dt_minute_range: "dt_minute dt < 60"
  by (simp add: dt_minute_def nat_less_iff)

lemma month_day_range:
  assumes "n < 365"
  shows "let month = (n + 50) div 32;
             preceding = DAYS_BEFORE_MONTH ! month + (if 2 < month \<and> leapyear then 1 else 0)
         in if n < preceding
            then 1 \<le> month - 1 \<and> month - 1 \<le> 12
               \<and> n - (preceding - (DAYS_IN_MONTH ! (month - 1)
                                      + (if month - 1 = 2 \<and> leapyear then 1 else 0))) + 1 \<le> 31
            else 1 \<le> month \<and> month \<le> 12 \<and> n - preceding + 1 \<le> 31"
proof -
  define m where "m = (n + 50) div 32"
  have b: "32 * m \<le> n + 50" "n + 50 < 32 * m + 32"
    unfolding m_def by presburger+
  with assms have "1 \<le> m" "m \<le> 12"
    by simp_all
  then have "m = 1 \<or> m = 2 \<or> m = 3 \<or> m = 4 \<or> m = 5 \<or> m = 6 \<or> m = 7 \<or> m = 8
      \<or> m = 9 \<or> m = 10 \<or> m = 11 \<or> m = 12"
    by arith
  then consider "m = 1" | "m = 2" | "m = 3" | "m = 4" | "m = 5" | "m = 6" | "m = 7" | "m = 8"
    | "m = 9" | "m = 10" | "m = 11" | "m = 12"
    by blast
  then have "if n < DAYS_BEFORE_MONTH ! m + (if 2 < m \<and> leapyear then 1 else 0)
            then 1 \<le> m - 1 \<and> m - 1 \<le> 12
               \<and> n - (DAYS_BEFORE_MONTH ! m + (if 2 < m \<and> leapyear then 1 else 0)
                        - (DAYS_IN_MONTH ! (m - 1) + (if m - 1 = 2 \<and> leapyear then 1 else 0))) + 1 \<le> 31
            else 1 \<le> m \<and> m \<le> 12
               \<and> n - (DAYS_BEFORE_MONTH ! m + (if 2 < m \<and> leapyear then 1 else 0)) + 1 \<le> 31"
  proof cases
    case 1 with b assms show ?thesis by (auto simp: DAYS_BEFORE_MONTH_def DAYS_IN_MONTH_def)
  next
    case 2 with b assms show ?thesis by (auto simp: DAYS_BEFORE_MONTH_def DAYS_IN_MONTH_def)
  next
    case 3 with b assms show ?thesis by (auto simp: DAYS_BEFORE_MONTH_def DAYS_IN_MONTH_def)
  next
    case 4 with b assms show ?thesis by (auto simp: DAYS_BEFORE_MONTH_def DAYS_IN_MONTH_def)
  next
    case 5 with b assms show ?thesis by (auto simp: DAYS_BEFORE_MONTH_def DAYS_IN_MONTH_def)
  next
    case 6 with b assms show ?thesis by (auto simp: DAYS_BEFORE_MONTH_def DAYS_IN_MONTH_def)
  next
    case 7 with b assms show ?thesis by (auto simp: DAYS_BEFORE_MONTH_def DAYS_IN_MONTH_def)
  next
    case 8 with b assms show ?thesis by (auto simp: DAYS_BEFORE_MONTH_def DAYS_IN_MONTH_def)
  next
    case 9 with b assms show ?thesis by (auto simp: DAYS_BEFORE_MONTH_def DAYS_IN_MONTH_def)
  next
    case 10 with b assms show ?thesis by (auto simp: DAYS_BEFORE_MONTH_def DAYS_IN_MONTH_def)
  next
    case 11 with b assms show ?thesis by (auto simp: DAYS_BEFORE_MONTH_def DAYS_IN_MONTH_def)
  next
    case 12 with b assms show ?thesis by (auto simp: DAYS_BEFORE_MONTH_def DAYS_IN_MONTH_def)
  qed
  then show ?thesis
    by (simp only: Let_def m_def)
qed

lemma ord2ymd_range:
  "1 \<le> fst (ord2ymd n0)
   \<and> 1 \<le> fst (snd (ord2ymd n0)) \<and> fst (snd (ord2ymd n0)) \<le> 12
   \<and> 1 \<le> snd (snd (ord2ymd n0)) \<and> snd (snd (ord2ymd n0)) \<le> 31"
proof -
  define n400 where "n400 = n0 div 146097"
  define n100 where "n100 = n0 mod 146097 div 36524"
  define n4 where "n4 = n0 mod 146097 mod 36524 div 1461"
  define n1 where "n1 = n0 mod 146097 mod 36524 mod 1461 div 365"
  define n where "n = n0 mod 146097 mod 36524 mod 1461 mod 365"
  define year where "year = n400 * 400 + 1 + n100 * 100 + n4 * 4 + n1"
  define leapyear where "leapyear \<longleftrightarrow> n1 = 3 \<and> (n4 \<noteq> 24 \<or> n100 = 3)"
  define month where "month = (n + 50) div 32"
  define preceding where
    "preceding = DAYS_BEFORE_MONTH ! month + (if 2 < month \<and> leapyear then 1 else 0)"
  define preceding' where
    "preceding' = preceding - (DAYS_IN_MONTH ! (month - 1) + (if month - 1 = 2 \<and> leapyear then 1 else 0))"
  have eq: "ord2ymd n0 =
      (if n1 = 4 \<or> n100 = 4 then (year - 1, 12, 31)
       else if n < preceding then (year, month - 1, n - preceding' + 1)
       else (year, month, n - preceding + 1))"
    by (simp only: ord2ymd_def Let_def n400_def n100_def n4_def n1_def n_def year_def leapyear_def
        month_def preceding_def preceding'_def)
  have "n < 365"
    by (simp add: n_def)
  from month_day_range[OF this, of leapyear]
  have md: "if n < preceding
            then 1 \<le> month - 1 \<and> month - 1 \<le> 12 \<and> n - preceding' + 1 \<le> 31
            else 1 \<le> month \<and> month \<le> 12 \<and> n - preceding + 1 \<le> 31"
    by (simp only: Let_def month_def preceding_def preceding'_def)
  have y: "1 \<le> year" "n1 = 4 \<or> n100 = 4 \<Longrightarrow> 1 \<le> year - 1"
    by (auto simp: year_def)
  show ?thesis
  proof (cases "n1 = 4 \<or> n100 = 4")
    case True
    with y(2) show ?thesis
      by (simp add: eq)
  next
    case False
    show ?thesis
    proof (cases "n < preceding")
      case True
      with md y(1) \<open>\<not> (n1 = 4 \<or> n100 = 4)\<close> show ?thesis
        by (simp add: eq)
    next
      case False
      with md y(1) \<open>\<not> (n1 = 4 \<or> n100 = 4)\<close> show ?thesis
        by (simp add: eq)
    qed
  qed
qed

lemma display_format_strftime:
  "display_format (strftime dt ''%-I:%M %p - %-d %b %Y'')"
proof -
  obtain a b where ab: "zero_pad 2 (str_nat (dt_minute dt)) = [a, b]" "a \<in> set ''012345''"
      "b \<in> set ''0123456789''"
    using minute_two_digits[OF dt_minute_range[of dt]] by blast
  have r: "1 \<le> dt_year dt" "1 \<le> dt_month dt" "dt_month dt \<le> 12" "1 \<le> dt_day dt" "dt_day dt \<le> 31"
    using ord2ymd_range[of "nat (dt div US_PER_DAY)"]
    by (simp_all add: dt_year_def dt_month_def dt_day_def)
  have "strftime dt ''%-I:%M %p - %-d %b %Y'' =
      str_nat (hour12 dt) @ '':'' @ [a, b] @ '' '' @ (if dt_hour dt < 12 then ''AM'' else ''PM'')
        @ '' - '' @ str_nat (dt_day dt) @ '' '' @ MONTH_ABBR ! dt_month dt @ '' ''
        @ str_nat (dt_year dt)"
    by (simp only: strftime_display ab(1))
  moreover have "str_nat (hour12 dt) \<in> set [''1'', ''2'', ''3'', ''4'', ''5'', ''6'', ''7'', ''8'', ''9'', ''10'', ''11'', ''12'']"
    using hour12_range[of dt] by (intro str_nat_hour) simp_all
  moreover have "(if dt_hour dt < 12 then ''AM'' else ''PM'') \<in> set [''AM'', ''PM'']"
    by simp
  moreover note str_nat_day[OF r(4,5)] month_abbr[OF r(2,3)] ab(2,3)
    str_nat_nonempty[of "dt_year dt"] str_nat_digits[of "dt_year dt"]
  moreover have "hd (str_nat (dt_year dt)) \<noteq> CHR ''0''"
    using r(1) by (intro str_nat_no_leading_zero) simp
  ultimately show ?thesis
    unfolding display_format_def by blast
qed

lemma directive_999:
  "directive 31493836800000000 True CHR ''I'' = ''12''"
  "directive 31493836800000000 False CHR ''M'' = ''00''"
  "directive 31493836800000000 False CHR ''p'' = ''AM''"
  "directive 31493836800000000 True CHR ''d'' = ''1''"
  "directive 31493836800000000 False CHR ''b'' = ''Jan''"
  "directive 31493836800000000 False CHR ''Y'' = ''999''"
proof -
  have o: "ord2ymd 364512 = (999, 1, 1)"
    by (simp add: ord2ymd_def Let_def DAYS_BEFORE_MONTH_def DAYS_IN_MONTH_def)
  show "directive 31493836800000000 True CHR ''I'' = ''12''"
    "directive 31493836800000000 False CHR ''M'' = ''00''"
    "directive 31493836800000000 False CHR ''p'' = ''AM''"
    "directive 31493836800000000 True CHR ''d'' = ''1''"
    "directive 31493836800000000 False CHR ''b'' = ''Jan''"
    "directive 31493836800000000 False CHR ''Y'' = ''999''"
    by (simp_all add: directive_def)
       (simp_all add: zero_pad_def hour12_def dt_hour_def dt_minute_def dt_day_def dt_month_def
        dt_year_def US_PER_DAY_def o MONTH_ABBR_def str_nat.simps char_of_eq_iff)
qed

lemma format_date_999:
  "format_date fromisoformat999 ''0999-01-01T00:00:00'' = Inr ''12:00 AM - 1 Jan 999''"
proof -
  have "replace ''0999-01-01T00:00:00'' CHR ''Z'' ''+00:00'' = ''0999-01-01T00:00:00''"
    by (simp add: replace_def)
  then have "fromisoformat999 (replace ''0999-01-01T00:00:00'' CHR ''Z'' ''+00:00'') = Inr 31493836800000000"
    by (simp add: fromisoformat999_def)
  then have "format_date fromisoformat999 ''0999-01-01T00:00:00''
               = Inr (strftime 31493836800000000 ''%-I:%M %p - %-d %b %Y'')"
    by (rule format_date_parsed)
  also have "strftime 31493836800000000 ''%-I:%M %p - %-d %b %Y'' = ''12:00 AM - 1 Jan 999''"
    by (simp add: directive_999)
  finally show ?thesis .
qed

lemma lstrip_key:
  assumes "tag = replicate j m @ key" "take 1 key \<noteq> [m]"
  shows "lstrip [m] tag = key"
proof -
  have "lstrip [m] key = key"
    using assms(2) by (cases key) (simp_all add: lstrip_def)
  with assms(1) show ?thesis
    by (simp add: lstrip_replicate)
qed

lemma run_two_hashes_cap:
  \<open>mock_get_tweets_by_hashtag ''##Python'' 1 world0 =
     Inr ([\<lparr>account = \<lparr>fullname = ''Raymond Hettinger'', href = ''/raymondh'', account_id = 14159138\<rparr>,
            date = ''2:30 PM - 15 Mar 2023'',
            tweet_text = ''Just released a new #Python library for data processing! Check it out: github.com/example'',
            replies = 0, retweets = 0, likes = 0, hashtags = [''#python'']\<rparr>], world0)\<close>
  by (simp add: mock_get_tweets_by_hashtag_def lstrip_def py_range_one hashtag_tweet_world0 lower_def
      lower_char_def is_upper_def char_of_eq_iff)

section \<open>The claims\<close>

text \<open>
  C1.  For every limit \<open>n\<close> from 1 to 100 and every non-empty key, \<open>get_tweets_by_hashtag\<close>
  and \<open>get_user_tweets\<close> of the Synthetic Backend each return a list of exactly \<open>n\<close>
  tweets.  The wall clock is taken to be sane, since the date of a tweet is computed
  from it.
\<close>

theorem C1_exactly_n_tweets:
  assumes "1 \<le> n" "n \<le> 100" "key \<noteq> []" "clock_ok w"
  shows "(\<exists>ts. outcome (mock_get_tweets_by_hashtag key n w) = Inr ts \<and> int (length ts) = n)
       \<and> (\<exists>ts. outcome (mock_get_user_tweets key n w) = Inr ts \<and> int (length ts) = n)"
proof -
  have n: "n \<le> 1438325" "int (nat n) = n"
    using assms(1,2) by simp_all
  from mock_hashtag_runs[OF assms(3,4) n(1)] mock_user_runs[OF assms(3,4) n(1)]
  show ?thesis
    by (metis n(2))
qed

theorem C1_exactly_n_tweets_witness:
  "(1::int) \<le> 5 \<and> (5::int) \<le> 100 \<and> ''python'' \<noteq> [] \<and> clock_ok world0
   \<and> (\<exists>ts. outcome (mock_get_tweets_by_hashtag ''python'' 5 world0) = Inr ts \<and> int (length ts) = 5)
   \<and> (\<exists>ts. outcome (mock_get_user_tweets ''python'' 5 world0) = Inr ts \<and> int (length ts) = 5)"
  using C1_exactly_n_tweets[of 5 "''python''" world0] clock_ok_world0 by simp

text \<open>
  C2 says that every tweet of \<open>get_tweets_by_hashtag\<close> has \<open>#\<close> followed by the
  normalized tag among its hashtags, where normalization removes at most one marker.
  For the tag \<open>##python\<close> that would be \<open>##python\<close>; the code reports \<open>#python\<close>.
\<close>

theorem C2_single_marker_counterexample:
  \<open>strip_one CHR ''#'' ''##python'' = ''#python''
   \<and> mock_get_tweets_by_hashtag ''##python'' 1 world0 =
       Inr ([\<lparr>account = \<lparr>fullname = ''Raymond Hettinger'', href = ''/raymondh'', account_id = 14159138\<rparr>,
              date = ''2:30 PM - 15 Mar 2023'',
              tweet_text = ''Just released a new #Python library for data processing! Check it out: github.com/example'',
              replies = 0, retweets = 0, likes = 0, hashtags = [''#python'']\<rparr>], world0)
   \<and> lower (CHR ''#'' # strip_one CHR ''#'' ''##python'') \<notin> set (map lower [''#python''])\<close>
proof -
  have "strip_one CHR ''#'' ''##python'' = ''#python''"
    by (simp add: strip_one_def)
  moreover have "lower ''##python'' = ''##python''" "lower ''#python'' = ''#python''"
    by (simp_all add: lower_def lower_char_def is_upper_def)
  ultimately show ?thesis
    by (simp add: run_two_hashes)
qed

text \<open>
  C2, as the code has it.  For every non-empty tag and every limit \<open>n \<ge> 1\<close>, every
  tweet that \<open>get_tweets_by_hashtag\<close> of the Synthetic Backend returns has \<open>#\<close> followed
  by the key among its hashtags, where the key is the tag without all its leading
  \<open>#\<close>, in lower case; so it has \<open>#\<close> followed by the tag without its leading markers,
  compared without regard to case.  The tweet comes from a sample text by putting the
  key in front of the hashtags and adding a line \<open>#key\<close> to the text exactly when the
  key is not among the lower-cased \<open>#\<close>-words of the text.
\<close>

theorem C2_requested_tag_present:
  assumes "tag \<noteq> []" "1 \<le> n" "mock_get_tweets_by_hashtag tag n w = Inr (ts, w')"
    and "tag = replicate j CHR ''#'' @ key" "take 1 key \<noteq> ''#''"
  shows "ts \<noteq> [] \<and> (\<forall>tw \<in> set ts.
            CHR ''#'' # lower key \<in> set (hashtags tw)
          \<and> lower (CHR ''#'' # key) \<in> set (map lower (hashtags tw))
          \<and> (\<exists>base \<in> set SAMPLE_TEXTS. tag_forced (lower key) base tw))"
proof -
  have key: "lstrip ''#'' tag = key"
    using assms(4,5) by (rule lstrip_key)
  from mock_hashtag_result[OF assms(1,3)]
  have len: "length ts = nat n"
    and forced: "\<forall>tw \<in> set ts. \<exists>base \<in> set SAMPLE_TEXTS. tag_forced (lower key) base tw"
    by (simp_all add: key)
  have "CHR ''#'' # lower key \<in> set (hashtags tw)
      \<and> lower (CHR ''#'' # key) \<in> set (map lower (hashtags tw))" if "tw \<in> set ts" for tw
  proof -
    from forced that obtain base where "tag_forced (lower key) base tw" by blast
    then have m: "CHR ''#'' # lower key \<in> set (hashtags tw)" by (rule tag_forced_member)
    then have "lower (CHR ''#'' # lower key) \<in> set (map lower (hashtags tw))" by simp
    then have "lower (CHR ''#'' # key) \<in> set (map lower (hashtags tw))"
      by (simp add: lower_hash lower_idem)
    with m show ?thesis by simp
  qed
  moreover have "ts \<noteq> []" using len assms(2) by auto
  ultimately show ?thesis using forced by blast
qed

theorem C2_requested_tag_present_witness:
  \<open>''##Python'' \<noteq> [] \<and> (1::int) \<le> 1
   \<and> mock_get_tweets_by_hashtag ''##Python'' 1 world0 =
       Inr ([\<lparr>account = \<lparr>fullname = ''Raymond Hettinger'', href = ''/raymondh'', account_id = 14159138\<rparr>,
              date = ''2:30 PM - 15 Mar 2023'',
              tweet_text = ''Just released a new #Python library for data processing! Check it out: github.com/example'',
              replies = 0, retweets = 0, likes = 0, hashtags = [''#python'']\<rparr>], world0)
   \<and> ''##Python'' = replicate 2 CHR ''#'' @ ''Python'' \<and> take 1 ''Python'' \<noteq> ''#''
   \<and> CHR ''#'' # lower ''Python'' \<in> set [''#python'']
   \<and> lower (CHR ''#'' # ''Python'') \<in> set (map lower [''#python''])\<close>
proof -
  have d: "''##Python'' = replicate 2 CHR ''#'' @ ''Python''" "take 1 ''Python'' \<noteq> ''#''"
    by (simp_all add: numeral_2_eq_2)
  from C2_requested_tag_present[OF _ _ run_two_hashes_cap d]
  have "CHR ''#'' # lower ''Python'' \<in> set [''#python'']
      \<and> lower (CHR ''#'' # ''Python'') \<in> set (map lower [''#python''])"
    by simp
  then show ?thesis
    by (simp add: run_two_hashes_cap numeral_2_eq_2)
qed

text \<open>
  C3.  An upstream payload with one item whose \<open>author_id\<close> is \<open>987654321\<close>, whose text
  is \<open>This is a test tweet #python\<close> and whose metrics are 5 replies, 10 retweets and
  50 likes, together with an expansion user with that id and the name \<open>Test User\<close>,
  is normalized to exactly one tweet with the text unchanged, the full name
  \<open>Test User\<close>, those three counts, and \<open>#python\<close> among the hashtags.  A metric
  that the payload of an item lacks is 0 in the tweet.
\<close>

theorem C3_upstream_normalization:
  assumes "iso_contract f"
    and "j_fields item ''author_id'' = Some ''987654321''"
    and "j_fields item ''text'' = Some ''This is a test tweet #python''"
    and "metric_of item ''reply_count'' = Some 5"
    and "metric_of item ''retweet_count'' = Some 10"
    and "metric_of item ''like_count'' = Some 50"
    and "user ''id'' = Some ''987654321''" and "user ''name'' = Some ''Test User''"
  shows "(\<exists>tw. parse_tweets_response f \<lparr>j_data = Some [item], j_includes = Some \<lparr>j_users = Some [user]\<rparr>\<rparr>
                 = Inr [tw]
            \<and> tweet_text tw = ''This is a test tweet #python''
            \<and> fullname (account tw) = ''Test User''
            \<and> likes tw = 50 \<and> retweets tw = 10 \<and> replies tw = 5
            \<and> ''#python'' \<in> set (hashtags tw))
       \<and> (\<forall>users' item' tw'. parse_tweet f users' item' = Inr tw' \<longrightarrow>
              (metric_of item' ''reply_count'' = None \<longrightarrow> replies tw' = 0)
            \<and> (metric_of item' ''retweet_count'' = None \<longrightarrow> retweets tw' = 0)
            \<and> (metric_of item' ''like_count'' = None \<longrightarrow> likes tw' = 0))"
proof -
  let ?users = "[''987654321'' \<mapsto> user]"
  have "\<exists>d u. parse_tweet f ?users item =
           Inr \<lparr>account = \<lparr>fullname = ''Test User'', href = CHR ''/'' # u, account_id = 987654321\<rparr>,
                date = d, tweet_text = ''This is a test tweet #python'',
                replies = (case metric_of item ''reply_count'' of None \<Rightarrow> 0 | Some v \<Rightarrow> v),
                retweets = (case metric_of item ''retweet_count'' of None \<Rightarrow> 0 | Some v \<Rightarrow> v),
                likes = (case metric_of item ''like_count'' of None \<Rightarrow> 0 | Some v \<Rightarrow> v),
                hashtags = [''#python'']\<rparr>"
    by (rule parse_tweet_test[where user = user, OF assms(1-3) _ assms(8)]) simp
  then obtain d u where "parse_tweet f ?users item =
           Inr \<lparr>account = \<lparr>fullname = ''Test User'', href = CHR ''/'' # u, account_id = 987654321\<rparr>,
                date = d, tweet_text = ''This is a test tweet #python'',
                replies = 5, retweets = 10, likes = 50, hashtags = [''#python'']\<rparr>"
    by (auto simp: assms(4-6))
  then have first: "\<exists>tw. parse_tweets_response f \<lparr>j_data = Some [item], j_includes = Some \<lparr>j_users = Some [user]\<rparr>\<rparr>
                 = Inr [tw]
            \<and> tweet_text tw = ''This is a test tweet #python''
            \<and> fullname (account tw) = ''Test User''
            \<and> likes tw = 50 \<and> retweets tw = 10 \<and> replies tw = 5
            \<and> ''#python'' \<in> set (hashtags tw)"
    by (simp add: parse_tweets_response_def assms(7))
  have second: "\<forall>users' item' tw'. parse_tweet f users' item' = Inr tw' \<longrightarrow>
              (metric_of item' ''reply_count'' = None \<longrightarrow> replies tw' = 0)
            \<and> (metric_of item' ''retweet_count'' = None \<longrightarrow> retweets tw' = 0)
            \<and> (metric_of item' ''like_count'' = None \<longrightarrow> likes tw' = 0)"
    using parse_tweet_metrics by fastforce
  from first second show ?thesis by (rule conjI)
qed

theorem C3_upstream_normalization_witness:
  "iso_contract fromisoformat0
   \<and> j_fields test_item ''author_id'' = Some ''987654321''
   \<and> j_fields test_item ''text'' = Some ''This is a test tweet #python''
   \<and> metric_of test_item ''reply_count'' = Some 5
   \<and> metric_of test_item ''retweet_count'' = Some 10
   \<and> metric_of test_item ''like_count'' = Some 50
   \<and> test_user ''id'' = Some ''987654321'' \<and> test_user ''name'' = Some ''Test User''
   \<and> parse_tweets_response fromisoformat0
        \<lparr>j_data = Some [test_item], j_includes = Some \<lparr>j_users = Some [test_user]\<rparr>\<rparr> =
      Inr [\<lparr>account = \<lparr>fullname = ''Test User'', href = ''/testuser'', account_id = 987654321\<rparr>,
            date = ''2:30 PM - 15 Mar 2023'', tweet_text = ''This is a test tweet #python'',
            replies = 5, retweets = 10, likes = 50, hashtags = [''#python'']\<rparr>]
   \<and> parse_tweet fromisoformat0 Map.empty bare_item =
      Inr \<lparr>account = \<lparr>fullname = ''Unknown'', href = ''/unknown'', account_id = 0\<rparr>,
           date = [], tweet_text = [], replies = 0, retweets = 0, likes = 0, hashtags = []\<rparr>
   \<and> metric_of bare_item ''reply_count'' = None
   \<and> metric_of bare_item ''retweet_count'' = None
   \<and> metric_of bare_item ''like_count'' = None"
proof -
  have h: "j_fields test_item ''author_id'' = Some ''987654321''"
    "j_fields test_item ''text'' = Some ''This is a test tweet #python''"
    "test_user ''id'' = Some ''987654321''" "test_user ''name'' = Some ''Test User''"
    by (simp_all add: test_item_def test_user_def)
  have b: "metric_of bare_item ''reply_count'' = None" "metric_of bare_item ''retweet_count'' = None"
    "metric_of bare_item ''like_count'' = None"
    by (simp_all add: metric_of_def bare_item_def)
  from C3_upstream_normalization[OF iso_contract0 h(1,2) metric_of_test_item h(3,4)]
  show ?thesis
    using iso_contract0 h b metric_of_test_item parse_test_payload parse_bare_item by simp
qed

text \<open>
  C4 says that a parsed timestamp is rendered as \<open>H:MM AM/PM - D Mon YYYY\<close>, with a
  year of four digits.  The code writes the year without padding: the first instant
  of the year 999 is rendered with the year \<open>999\<close>.
\<close>

theorem C4_year_padding_counterexample:
  "format_date fromisoformat999 ''0999-01-01T00:00:00'' = Inr ''12:00 AM - 1 Jan 999''"
  by (rule format_date_999)

text \<open>
  C4, as the code has it.  For every input string, \<open>_format_date\<close> gives the string to
  the ISO-8601 parser with every \<open>Z\<close> replaced by \<open>+00:00\<close> (so that a trailing \<open>Z\<close>
  reads as UTC); when the parser returns a \<open>datetime\<close>, the result is that value in
  the display format: the hour from 1 to 12 and the day without padding, the minute
  in two digits, AM or PM, the abbreviated month, and the year in decimal without
  leading zeros; when the parser fails, the result is the input string unchanged.
  No exception is raised.
\<close>

theorem C4_format_date_never_raises:
  assumes "iso_contract f"
  shows "(\<exists>r. format_date f s = Inr r)
       \<and> (\<forall>e. f (replace s CHR ''Z'' ''+00:00'') = Inl e \<longrightarrow> format_date f s = Inr s)
       \<and> (\<forall>dt. f (replace s CHR ''Z'' ''+00:00'') = Inr dt \<longrightarrow>
             format_date f s =
               Inr (str_nat (hour12 dt) @ '':'' @ zero_pad 2 (str_nat (dt_minute dt)) @ '' ''
                    @ (if dt_hour dt < 12 then ''AM'' else ''PM'') @ '' - '' @ str_nat (dt_day dt)
                    @ '' '' @ MONTH_ABBR ! dt_month dt @ '' '' @ str_nat (dt_year dt))
           \<and> (\<exists>r. format_date f s = Inr r \<and> display_format r))
       \<and> (CHR ''Z'' \<notin> set b \<longrightarrow> replace (b @ ''Z'') CHR ''Z'' ''+00:00'' = b @ ''+00:00'')"
proof -
  have "\<exists>r. format_date f s = Inr r"
    using assms by (rule format_date_total) blast
  moreover have "\<forall>e. f (replace s CHR ''Z'' ''+00:00'') = Inl e \<longrightarrow> format_date f s = Inr s"
    using assms by (simp add: format_date_failed)
  moreover have "\<forall>dt. f (replace s CHR ''Z'' ''+00:00'') = Inr dt \<longrightarrow>
             format_date f s =
               Inr (str_nat (hour12 dt) @ '':'' @ zero_pad 2 (str_nat (dt_minute dt)) @ '' ''
                    @ (if dt_hour dt < 12 then ''AM'' else ''PM'') @ '' - '' @ str_nat (dt_day dt)
                    @ '' '' @ MONTH_ABBR ! dt_month dt @ '' '' @ str_nat (dt_year dt))
           \<and> (\<exists>r. format_date f s = Inr r \<and> display_format r)"
  proof (intro allI impI)
    fix dt assume "f (replace s CHR ''Z'' ''+00:00'') = Inr dt"
    then have run: "format_date f s = Inr (strftime dt ''%-I:%M %p - %-d %b %Y'')"
      by (rule format_date_parsed)
    then have "format_date f s =
               Inr (str_nat (hour12 dt) @ '':'' @ zero_pad 2 (str_nat (dt_minute dt)) @ '' ''
                    @ (if dt_hour dt < 12 then ''AM'' else ''PM'') @ '' - '' @ str_nat (dt_day dt)
                    @ '' '' @ MONTH_ABBR ! dt_month dt @ '' '' @ str_nat (dt_year dt))"
      by (simp only: strftime_display)
    moreover have "\<exists>r. format_date f s = Inr r \<and> display_format r"
      using run display_format_strftime[of dt] by blast
    ultimately show "format_date f s =
               Inr (str_nat (hour12 dt) @ '':'' @ zero_pad 2 (str_nat (dt_minute dt)) @ '' ''
                    @ (if dt_hour dt < 12 then ''AM'' else ''PM'') @ '' - '' @ str_nat (dt_day dt)
                    @ '' '' @ MONTH_ABBR ! dt_month dt @ '' '' @ str_nat (dt_year dt))
           \<and> (\<exists>r. format_date f s = Inr r \<and> display_format r)"
      by (rule conjI)
  qed
  moreover have "CHR ''Z'' \<notin> set b \<longrightarrow> replace (b @ ''Z'') CHR ''Z'' ''+00:00'' = b @ ''+00:00''"
    by (simp add: replace_trailing)
  ultimately show ?thesis by blast
qed

theorem C4_format_date_never_raises_witness:
  "iso_contract fromisoformat0
   \<and> fromisoformat0 (replace ''2023-03-15T14:30:00.000Z'' CHR ''Z'' ''+00:00'') = Inr 63814487400000000
   \<and> format_date fromisoformat0 ''2023-03-15T14:30:00.000Z'' = Inr ''2:30 PM - 15 Mar 2023''
   \<and> display_format ''2:30 PM - 15 Mar 2023''
   \<and> fromisoformat0 (replace ''yesterday'' CHR ''Z'' ''+00:00'') = Inl (ValueError ''Invalid isoformat string'')
   \<and> format_date fromisoformat0 ''yesterday'' = Inr ''yesterday''
   \<and> CHR ''Z'' \<notin> set ''2023-03-15T14:30:00.000''
   \<and> replace (''2023-03-15T14:30:00.000'' @ ''Z'') CHR ''Z'' ''+00:00'' = ''2023-03-15T14:30:00.000'' @ ''+00:00''"
proof -
  have p: "fromisoformat0 (replace ''2023-03-15T14:30:00.000Z'' CHR ''Z'' ''+00:00'') = Inr 63814487400000000"
    by (simp only: replace_sample fromisoformat0_sample)
  from C4_format_date_never_raises[OF iso_contract0, of "''2023-03-15T14:30:00.000Z''"] p
  have "\<exists>r. format_date fromisoformat0 ''2023-03-15T14:30:00.000Z'' = Inr r \<and> display_format r"
    by blast
  then have "display_format ''2:30 PM - 15 Mar 2023''"
    by (simp add: format_date_sample)
  then show ?thesis
    using C4_format_date_never_raises[OF iso_contract0, of "''yesterday''" "''2023-03-15T14:30:00.000''"]
      iso_contract0 format_date_sample
    by (simp add: replace_sample replace_plain fromisoformat0_sample)
qed

text \<open>
  C5.  On both backends and for both methods a key that is empty once its leading
  marker is removed should make the call fail with InvalidInput.  The code tests the
  key for emptiness before it removes the marker: the empty string is refused, but
  \<open>#\<close> and \<open>@\<close> pass.  In the sample world the Synthetic Backend then returns a tweet
  for the empty tag and one for the empty user name, and the Upstream Backend sends
  the query \<open>#\<close> and asks for the user with the empty name.
\<close>

theorem C5_marker_only_key_is_accepted:
  \<open>invalid_input (mock_get_tweets_by_hashtag [] n w)
   \<and> invalid_input (mock_get_user_tweets [] n w)
   \<and> invalid_input (api_get_tweets_by_hashtag self net f [] n)
   \<and> invalid_input (api_get_user_tweets self net f [] n)
   \<and> mock_get_tweets_by_hashtag ''#'' 1 world0 =
       Inr ([\<lparr>account = \<lparr>fullname = ''Raymond Hettinger'', href = ''/raymondh'', account_id = 14159138\<rparr>,
              date = ''2:30 PM - 15 Mar 2023'',
              tweet_text = ''Just released a new #Python library for data processing! Check it out: github.com/example'' @ [CHR 0x0A] @ ''#'',
              replies = 0, retweets = 0, likes = 0, hashtags = [''#'', ''#python'']\<rparr>], world0)
   \<and> mock_get_user_tweets ''@'' 1 world0 =
       Inr ([\<lparr>account = \<lparr>fullname = [], href = ''/'', account_id = 1000000\<rparr>,
              date = ''2:30 PM - 15 Mar 2023'',
              tweet_text = ''Just released a new #Python library for data processing! Check it out: github.com/example'',
              replies = 0, retweets = 0, likes = 0, hashtags = [''#Python'']\<rparr>], world0)
   \<and> api_get_tweets_by_hashtag api0 net_echo f ''#'' 1 =
       Inl (RuntimeError ''API request failed: https://api.twitter.com/2/tweets/search/recent?query=#&max_results=1&tweet.fields=created_at,public_metrics,text&expansions=author_id&user.fields=id,name,username&'')
   \<and> api_get_user_tweets api0 net_echo f ''@'' 1 =
       Inl (RuntimeError ''API request failed: https://api.twitter.com/2/users/by/username/?user.fields=id,name,username&'')\<close>
proof -
  have "invalid_input (mock_get_tweets_by_hashtag [] n w)"
    "invalid_input (mock_get_user_tweets [] n w)"
    "invalid_input (api_get_tweets_by_hashtag self net f [] n)"
    "invalid_input (api_get_user_tweets self net f [] n)"
    by (simp_all add: invalid_input_def mock_get_tweets_by_hashtag_def mock_get_user_tweets_def
        api_get_tweets_by_hashtag_def api_get_user_tweets_def)
  then show ?thesis
    by (simp only: run_hash run_at echo_hash echo_at simp_thms)
qed

text \<open>
  C6 says that key normalization removes at most one leading marker, so that
  \<open>##python\<close> would give the key \<open>#python\<close>.  In the code it gives \<open>python\<close>: the
  Synthetic Backend reports the hashtag \<open>#python\<close>, and the Upstream Backend sends the
  query \<open>#python\<close>.
\<close>

theorem C6_one_marker_counterexample:
  \<open>lstrip ''#'' ''##python'' = ''python''
   \<and> mock_get_tweets_by_hashtag ''##python'' 1 world0 =
       Inr ([\<lparr>account = \<lparr>fullname = ''Raymond Hettinger'', href = ''/raymondh'', account_id = 14159138\<rparr>,
              date = ''2:30 PM - 15 Mar 2023'',
              tweet_text = ''Just released a new #Python library for data processing! Check it out: github.com/example'',
              replies = 0, retweets = 0, likes = 0, hashtags = [''#python'']\<rparr>], world0)
   \<and> api_get_tweets_by_hashtag api0 net_echo fromisoformat0 ''##python'' 1 =
       Inl (RuntimeError ''API request failed: https://api.twitter.com/2/tweets/search/recent?query=#python&max_results=1&tweet.fields=created_at,public_metrics,text&expansions=author_id&user.fields=id,name,username&'')\<close>
proof -
  have "lstrip ''#'' ''##python'' = ''python''"
    by (simp add: lstrip_def)
  then show ?thesis
    by (simp only: run_two_hashes echo_two_hashes simp_thms)
qed

text \<open>
  C6, as the code has it.  Key normalization removes every leading marker: the
  internal key is the input without all its leading \<open>#\<close> (tags) or \<open>@\<close> (user names),
  so it never starts with the marker, and a non-empty key with any number of markers
  in front is treated by all four methods like the key itself; the Synthetic Backend
  also lower-cases the tag.
\<close>

theorem C6_all_leading_markers_stripped:
  "(\<exists>j. s = replicate j m @ lstrip [m] s) \<and> \<not> startswith (lstrip [m] s) [m]
   \<and> (key \<noteq> [] \<longrightarrow>
        mock_get_tweets_by_hashtag (replicate k CHR ''#'' @ key) n w
          = mock_get_tweets_by_hashtag (lower key) n w
      \<and> mock_get_user_tweets (replicate k CHR ''@'' @ key) n w = mock_get_user_tweets key n w
      \<and> api_get_tweets_by_hashtag self net f (replicate k CHR ''#'' @ key) n
          = api_get_tweets_by_hashtag self net f key n
      \<and> api_get_user_tweets self net f (replicate k CHR ''@'' @ key) n
          = api_get_user_tweets self net f key n)"
  using lstrip_decompose[of s m] lstrip_no_marker[of m s]
  by (simp add: mock_hashtag_markers mock_user_markers api_hashtag_markers api_user_markers)

theorem C6_all_leading_markers_stripped_witness:
  "''##python'' = replicate 2 CHR ''#'' @ lstrip ''#'' ''##python''
   \<and> \<not> startswith (lstrip ''#'' ''##python'') ''#''
   \<and> ''Python'' \<noteq> []
   \<and> mock_get_tweets_by_hashtag ''##Python'' 1 world0 = mock_get_tweets_by_hashtag ''python'' 1 world0
   \<and> mock_get_user_tweets ''@@Python'' 1 world0 = mock_get_user_tweets ''Python'' 1 world0
   \<and> api_get_tweets_by_hashtag api0 net_echo fromisoformat0 ''##Python'' 1
        = api_get_tweets_by_hashtag api0 net_echo fromisoformat0 ''Python'' 1
   \<and> api_get_user_tweets api0 net_echo fromisoformat0 ''@@Python'' 1
        = api_get_user_tweets api0 net_echo fromisoformat0 ''Python'' 1"
proof -
  have l: "lower ''Python'' = ''python''"
    by (simp add: lower_def lower_char_def is_upper_def char_of_eq_iff)
  have r: "replicate 2 CHR ''#'' @ ''Python'' = ''##Python''"
    "replicate 2 CHR ''@'' @ ''Python'' = ''@@Python''"
    "lstrip ''#'' ''##python'' = ''python''"
    "replicate 2 CHR ''#'' @ ''python'' = ''##python''"
    by (simp_all add: numeral_2_eq_2 lstrip_def)
  from C6_all_leading_markers_stripped[where s = "''##python''" and m = "CHR ''#''"
      and key = "''Python''" and k = 2 and n = 1 and w = world0 and self = api0 and net = net_echo
      and f = fromisoformat0]
  show ?thesis
    by (simp add: l r)
qed

text \<open>
  C7.  \<open>validate_limit\<close> returns the default when the raw value is absent; it fails
  with InvalidInput when the raw value is not an integer literal, or is one below 1 or
  above 100; otherwise it returns the integer.  In particular \<open>50\<close> gives 50, an absent
  value with default 30 gives 30, \<open>1\<close> and \<open>100\<close> succeed, and \<open>0\<close>, \<open>200\<close> and \<open>abc\<close>
  fail.
\<close>

theorem C7_validate_limit:
  "validate_limit None (Some d) = Inr d
   \<and> validate_limit None None = Inr 30
   \<and> (py_int s = None \<longrightarrow> invalid_input (validate_limit (Some s) dflt))
   \<and> (\<forall>v. py_int s = Some v \<and> v < 1 \<longrightarrow> invalid_input (validate_limit (Some s) dflt))
   \<and> (\<forall>v. py_int s = Some v \<and> 100 < v \<longrightarrow> invalid_input (validate_limit (Some s) dflt))
   \<and> (\<forall>v. py_int s = Some v \<and> 1 \<le> v \<and> v \<le> 100 \<longrightarrow> validate_limit (Some s) dflt = Inr v)
   \<and> validate_limit (Some ''50'') (Some 30) = Inr 50
   \<and> validate_limit None (Some 30) = Inr 30
   \<and> validate_limit (Some ''1'') (Some 30) = Inr 1
   \<and> validate_limit (Some ''100'') (Some 30) = Inr 100
   \<and> invalid_input (validate_limit (Some ''0'') (Some 30))
   \<and> invalid_input (validate_limit (Some ''200'') (Some 30))
   \<and> invalid_input (validate_limit (Some ''abc'') (Some 30))"
  by (simp add: validate_limit_cases py_int_samples)

theorem C7_validate_limit_witness:
  "py_int ''abc'' = None \<and> invalid_input (validate_limit (Some ''abc'') None)
   \<and> py_int ''0'' = Some 0 \<and> (0::int) < 1 \<and> invalid_input (validate_limit (Some ''0'') None)
   \<and> py_int ''200'' = Some 200 \<and> (100::int) < 200 \<and> invalid_input (validate_limit (Some ''200'') None)
   \<and> py_int ''7'' = Some 7 \<and> (1::int) \<le> 7 \<and> (7::int) \<le> 100 \<and> validate_limit (Some ''7'') None = Inr 7"
  using C7_validate_limit[where s = "''abc''" and dflt = None]
    C7_validate_limit[where s = "''0''" and dflt = None]
    C7_validate_limit[where s = "''200''" and dflt = None]
    C7_validate_limit[where s = "''7''" and dflt = None]
  by (simp add: py_int_samples)

text \<open>
  C8.  \<open>get_user_tweets\<close> of the Synthetic Backend resolves the account once and every
  returned tweet carries it: the first sample account whose \<open>href\<close> matches the
  normalized user name without regard to case, or else a new account whose full name
  is the title-cased name, whose \<open>href\<close> is \<open>/\<close> followed by the name, and whose id
  lies between 1000000 and 99999999.
\<close>

theorem C8_account_resolved_once:
  assumes "username \<noteq> []" "mock_get_user_tweets username n w = Inr (ts, w')"
  shows "length ts = nat n
       \<and> (\<exists>acc. resolved (lstrip ''@'' username) acc \<and> (\<forall>tw \<in> set ts. account tw = acc))"
  using assms by (rule mock_user_result)

theorem C8_account_resolved_once_witness:
  \<open>''unknownuser123'' \<noteq> []
   \<and> mock_get_user_tweets ''unknownuser123'' 1 world0 =
       Inr ([\<lparr>account = \<lparr>fullname = ''Unknownuser123'', href = ''/unknownuser123'', account_id = 1000000\<rparr>,
              date = ''2:30 PM - 15 Mar 2023'',
              tweet_text = ''Just released a new #Python library for data processing! Check it out: github.com/example'',
              replies = 0, retweets = 0, likes = 0, hashtags = [''#Python'']\<rparr>], world0)
   \<and> resolved (lstrip ''@'' ''unknownuser123'')
         \<lparr>fullname = ''Unknownuser123'', href = ''/unknownuser123'', account_id = 1000000\<rparr>
   \<and> ''@twitter'' \<noteq> []
   \<and> mock_get_user_tweets ''@twitter'' 1 world0 =
       Inr ([\<lparr>account = \<lparr>fullname = ''Twitter'', href = ''/Twitter'', account_id = 783214\<rparr>,
              date = ''2:30 PM - 15 Mar 2023'',
              tweet_text = ''Just released a new #Python library for data processing! Check it out: github.com/example'',
              replies = 0, retweets = 0, likes = 0, hashtags = [''#Python'']\<rparr>], world0)
   \<and> resolved (lstrip ''@'' ''@twitter'')
         \<lparr>fullname = ''Twitter'', href = ''/Twitter'', account_id = 783214\<rparr>\<close>
  using C8_account_resolved_once[OF _ run_unknown] C8_account_resolved_once[OF _ run_twitter]
    run_unknown run_twitter
  by auto




text \<open>
  C10.  For every limit \<open>n \<le> 0\<close> and every non-empty key, \<open>get_tweets_by_hashtag\<close> and
  \<open>get_user_tweets\<close> of the Synthetic Backend return the empty list and raise nothing:
  the loop does not run, and no bound of the limit is checked.
\<close>

theorem C10_nonpositive_limit_empty:
  assumes "n \<le> 0" "key \<noteq> []"
  shows "mock_get_tweets_by_hashtag key n w = Inr ([], w)
       \<and> outcome (mock_get_user_tweets key n w) = Inr []"
proof -
  obtain acc w1 where acc: "resolve_account (lstrip ''@'' key) w = Inr (acc, w1)"
    by (rule resolve_account_cases)
  show ?thesis
    using assms by (simp add: mock_get_tweets_by_hashtag_def mock_get_user_tweets_def
        py_range_nonpos acc outcome_def)
qed

theorem C10_nonpositive_limit_empty_witness:
  "(-3::int) \<le> 0 \<and> ''python'' \<noteq> []
   \<and> mock_get_tweets_by_hashtag ''python'' (-3) world0 = Inr ([], world0)
   \<and> outcome (mock_get_user_tweets ''python'' (-3) world0) = Inr []"
  using C10_nonpositive_limit_empty[of "-3" "''python''" world0] by simp

end
